theory Spec2Isabelle
  imports Main "HOL-Library.AList" "HOL-Library.Sublist"
begin

section \<open>The authentication handler of synapse/handlers/auth.py\<close>

text \<open>
  A shallow embedding of \<^verbatim>\<open>AuthHandler\<close>: the session table, the multi-stage
  \<^verbatim>\<open>check_auth\<close> state machine, out-of-band stage results, local password
  verification, the macaroon generators and the bcrypt wrapper. The handler's mutable
  attributes are a record that every operation takes and returns; a raised exception is the
  \<open>Inl\<close> of a sum; the collaborators that live outside the file (clock, random strings,
  account store, bcrypt, pymacaroons, the auth API) are parameters.
\<close>

subsection \<open>Python values\<close>

text \<open>
  The JSON values a client sends and the values a checker returns. A dictionary is an
  association list read through \<open>map_of\<close>; assignment is \<open>AList.update\<close> and
  \<^verbatim>\<open>del d[k]\<close> is \<open>AList.delete\<close>. Floats are left out.
\<close>

datatype pyval =
    PNone
  | PBool bool
  | PInt int
  | PStr string
  | PList "pyval list"
  | PDict "(string \<times> pyval) list"

type_synonym pydict = "(string \<times> pyval) list"

datatype codes =
  UNRECOGNIZED | MISSING_PARAM | FORBIDDEN | UNKNOWN_TOKEN | CAPTCHA_NEEDED | UNAUTHORIZED

text \<open>
  The exceptions that cross the functions modelled here. \<open>LoginError\<close> and \<open>AuthError\<close>
  carry the HTTP status, the message and the error code, as their constructors in
  synapse.api.errors do; \<open>OtherError\<close> stands for any exception class that this file
  neither raises nor catches.
\<close>

datatype error =
    LoginError int string codes
  | AuthError int string codes
  | TypeError
  | KeyError
  | ValueError
  | MacaroonException
  | OtherError string

text \<open>Truthiness, as \<^verbatim>\<open>if x:\<close> and \<^verbatim>\<open>not x\<close> test it.\<close>

fun truthy :: "pyval \<Rightarrow> bool" where
  "truthy PNone = False"
| "truthy (PBool b) = b"
| "truthy (PInt i) = (i \<noteq> 0)"
| "truthy (PStr s) = (s \<noteq> [])"
| "truthy (PList l) = (l \<noteq> [])"
| "truthy (PDict d) = (d \<noteq> [])"

text \<open>
  \<^verbatim>\<open>key in x\<close> for a string key: membership of the keys of a dict, of the elements
  of a list, substring test on a string, and a TypeError on None, a bool or a number.
\<close>

fun py_contains :: "pyval \<Rightarrow> string \<Rightarrow> error + bool" where
  "py_contains (PDict d) k = Inr (k \<in> fst ` set d)"
| "py_contains (PList l) k = Inr (PStr k \<in> set l)"
| "py_contains (PStr s) k = Inr (sublist k s)"
| "py_contains PNone k = Inl TypeError"
| "py_contains (PBool b) k = Inl TypeError"
| "py_contains (PInt i) k = Inl TypeError"

text \<open>
  \<^verbatim>\<open>x[key]\<close> for a string key: the value of a dict (KeyError when absent); a list,
  a string, None, a bool or a number cannot be indexed by a string (TypeError).
\<close>

fun py_getitem :: "pyval \<Rightarrow> string \<Rightarrow> error + pyval" where
  "py_getitem (PDict d) k = (case map_of d k of None \<Rightarrow> Inl KeyError | Some v \<Rightarrow> Inr v)"
| "py_getitem v k = Inl TypeError"

text \<open>Lists and dicts cannot be hashed, so they cannot be looked up in a dict.\<close>

fun py_hashable :: "pyval \<Rightarrow> bool" where
  "py_hashable (PList l) = False"
| "py_hashable (PDict d) = False"
| "py_hashable v = True"

subsection \<open>Sessions and the handler\<close>

text \<open>
  A session is a Python dict with the optional entries \<^verbatim>\<open>clientdict\<close>,
  \<^verbatim>\<open>creds\<close>, \<^verbatim>\<open>serverdict\<close> and \<^verbatim>\<open>last_used\<close>; an absent entry is
  \<open>None\<close>. Its \<^verbatim>\<open>id\<close> entry is written once, by \<^verbatim>\<open>_get_session_info\<close>, with the
  key under which the dict is put in \<^verbatim>\<open>self.sessions\<close>, and nothing reassigns it: the
  model keeps the id as the table key, and a session a function holds is the pair of its id
  and its entries. The functions mutate the dict that is in the table, so each mutation of
  the held session is written to the table where the source makes it.
\<close>

record session =
  clientdict :: "pydict option"
  creds :: "pydict option"
  serverdict :: "pydict option"
  last_used :: "int option"

definition new_session :: session where
  "new_session = \<lparr>clientdict = None, creds = None, serverdict = None, last_used = None\<rparr>"

type_synonym checker = "pyval \<Rightarrow> string \<Rightarrow> error + pyval"

text \<open>
  The handler: \<^verbatim>\<open>self.sessions\<close>, \<^verbatim>\<open>self.checkers\<close>, and what it reads from the
  home server. \<open>clock_msec\<close> is the reading of \<^verbatim>\<open>hs.get_clock().time_msec()\<close>, which does
  not advance during one call; \<open>random_strings\<close> are the successive results of
  \<^verbatim>\<open>stringutils.random_string(24)\<close>; \<open>login_type_recaptcha\<close> is the constant
  \<^verbatim>\<open>LoginType.RECAPTCHA\<close> and \<open>recaptcha_public_key\<close> the configuration entry of that
  name. A checker is the outcome of the stage's check on \<^verbatim>\<open>(authdict, clientip)\<close>: an
  error or the value it returns.
\<close>

record auth_handler =
  sessions :: "string \<rightharpoonup> session"
  checkers :: "string \<rightharpoonup> checker"
  clock_msec :: int
  random_strings :: "string list"
  login_type_recaptcha :: string
  recaptcha_public_key :: pyval

definition SESSION_EXPIRE_MS :: int where
  "SESSION_EXPIRE_MS = 48 * 60 * 60 * 1000"

text \<open>
  \<^verbatim>\<open>_prune_sessions\<close>: the sweep over \<^verbatim>\<open>self.sessions.items()\<close>, a list copy in
  Python 2, so every entry is examined once and deleting one does not touch another. An
  entry without \<^verbatim>\<open>last_used\<close> counts as last used at 0.
\<close>

definition prune_sessions :: "auth_handler \<Rightarrow> auth_handler" where
  "prune_sessions h =
     h\<lparr>sessions := (\<lambda>sid.
          case sessions h sid of
            None \<Rightarrow> None
          | Some sess \<Rightarrow>
              (let lu = (case last_used sess of None \<Rightarrow> 0 | Some t \<Rightarrow> t);
                   now = clock_msec h
               in if lu < now - SESSION_EXPIRE_MS then None else Some sess))\<rparr>"

text \<open>\<^verbatim>\<open>_save_session\<close>: touch, store under the session's id, sweep.\<close>

definition save_session :: "string \<times> session \<Rightarrow> auth_handler \<Rightarrow> auth_handler" where
  "save_session s h =
     prune_sessions
       (h\<lparr>sessions := (sessions h)(fst s \<mapsto> (snd s)\<lparr>last_used := Some (clock_msec h)\<rparr>)\<rparr>)"

text \<open>
  The loop of \<^verbatim>\<open>_get_session_info\<close> that draws random strings until one is not a key
  of the table. It is entered with \<^verbatim>\<open>session_id\<close> None or already in use, so it draws at
  least once. The draws are the list; running out of them is \<open>None\<close>: the loop has not
  returned.
\<close>

fun fresh_session_id :: "(string \<rightharpoonup> session) \<Rightarrow> string list \<Rightarrow> (string \<times> string list) option" where
  "fresh_session_id tbl [] = None"
| "fresh_session_id tbl (r # rs) =
     (if tbl r \<noteq> None then fresh_session_id tbl rs else Some (r, rs))"

text \<open>
  The body of \<^verbatim>\<open>if not session_id:\<close> in \<^verbatim>\<open>_get_session_info\<close>: draw a fresh
  id and put the bare session, which has only its id, in the table.
\<close>

definition create_session ::
  "auth_handler \<Rightarrow> ((error + string \<times> session) \<times> auth_handler) option" where
  "create_session h =
     (case fresh_session_id (sessions h) (random_strings h) of
        None \<Rightarrow> None
      | Some (new, rest) \<Rightarrow>
          Some (Inr (new, new_session),
                h\<lparr>sessions := (sessions h)(new \<mapsto> new_session), random_strings := rest\<rparr>))"

text \<open>
  \<^verbatim>\<open>_get_session_info\<close>. The argument is any value (None when the client sent no id):
  the lookup \<^verbatim>\<open>session_id not in self.sessions\<close> raises TypeError on a list or a dict,
  and is true for every value that is not a key of the table; \<^verbatim>\<open>not session_id\<close> is
  then true for None and for the empty string.
\<close>

definition get_session_info ::
  "pyval \<Rightarrow> auth_handler \<Rightarrow> ((error + string \<times> session) \<times> auth_handler) option" where
  "get_session_info session_id h =
     (if \<not> py_hashable session_id then Some (Inl TypeError, h)
      else
        case (case session_id of
                PStr s \<Rightarrow> (case sessions h s of None \<Rightarrow> None | Some sess \<Rightarrow> Some (s, sess))
              | _ \<Rightarrow> None) of
          None \<Rightarrow> create_session h
        | Some (s, sess) \<Rightarrow>
            if s = [] then create_session h else Some (Inr (s, sess), h))"

subsection \<open>check\_auth\<close>

definition get_params_recaptcha :: "auth_handler \<Rightarrow> pyval" where
  "get_params_recaptcha h = PDict [(''public_key'', recaptcha_public_key h)]"

text \<open>
  \<^verbatim>\<open>_auth_dict_for_flows\<close>: the flows are copied, the public parameters of the stages
  that have some (only recaptcha) are collected once each, and the advertisement is built.
\<close>

definition auth_dict_for_flows :: "string list list \<Rightarrow> string \<times> session \<Rightarrow> auth_handler \<Rightarrow> pydict" where
  "auth_dict_for_flows flows s h =
     (let public_flows = fold (\<lambda>f acc. acc @ [f]) flows [];
          get_params = [(login_type_recaptcha h, get_params_recaptcha h)];
          params =
            fold (\<lambda>f ps.
                    fold (\<lambda>stage ps.
                            case map_of get_params stage of
                              Some p \<Rightarrow> if stage \<notin> fst ` set ps then AList.update stage p ps else ps
                            | None \<Rightarrow> ps) f ps)
                 public_flows []
      in [(''session'', PStr (fst s)),
          (''flows'', PList (map (\<lambda>f. PDict [(''stages'', PList (map PStr f))]) public_flows)),
          (''params'', PDict params)])"

text \<open>
  Lines 123 to 136 of \<^verbatim>\<open>check_auth\<close>: non-empty remaining parameters are stored in the
  session, which is saved; otherwise a stored \<^verbatim>\<open>clientdict\<close> becomes the working
  parameters. The result is the held session and the working parameters.
\<close>

definition check_auth_params ::
  "pydict \<Rightarrow> string \<times> session \<Rightarrow> auth_handler \<Rightarrow> (session \<times> pydict) \<times> auth_handler" where
  "check_auth_params cd s h =
     (if length cd > 0 then
        (let sess = (snd s)\<lparr>clientdict := Some cd\<rparr>
         in ((sess\<lparr>last_used := Some (clock_msec h)\<rparr>, cd), save_session (fst s, sess) h))
      else
        (case clientdict (snd s) of
           Some stored \<Rightarrow> ((snd s, stored), h)
         | None \<Rightarrow> ((snd s, cd), h)))"

text \<open>
  Lines 146 to 148, shared with \<^verbatim>\<open>add_oob_auth\<close> (lines 182 to 184): a session
  without \<^verbatim>\<open>creds\<close> gets the empty dict, in the table as well.
\<close>

definition ensure_creds :: "string \<times> session \<Rightarrow> auth_handler \<Rightarrow> session \<times> auth_handler" where
  "ensure_creds s h =
     (if creds (snd s) = None then
        (let sess = (snd s)\<lparr>creds := Some []\<rparr>
         in (sess, h\<lparr>sessions := (sessions h)(fst s \<mapsto> sess)\<rparr>))
      else (snd s, h))"

definition creds_of :: "session \<Rightarrow> pydict" where
  "creds_of sess = (case creds sess of None \<Rightarrow> [] | Some c \<Rightarrow> c)"

text \<open>
  Lines 150 to 157: the stage presented under \<^verbatim>\<open>type\<close>, if any, is checked. The
  value of \<^verbatim>\<open>authdict['type']\<close> is read once here. A truthy result is put in the
  session's \<^verbatim>\<open>creds\<close> dict under the stage's type and the session is saved. The
  result is the held session.
\<close>

definition check_auth_stage ::
  "pyval \<Rightarrow> string \<Rightarrow> string \<times> session \<Rightarrow> auth_handler \<Rightarrow> (error + session) \<times> auth_handler" where
  "check_auth_stage authdict clientip s h =
     (case py_contains authdict ''type'' of
        Inl e \<Rightarrow> (Inl e, h)
      | Inr False \<Rightarrow> (Inr (snd s), h)
      | Inr True \<Rightarrow>
          (case py_getitem authdict ''type'' of
             Inl e \<Rightarrow> (Inl e, h)
           | Inr ty \<Rightarrow>
               (if \<not> py_hashable ty then (Inl TypeError, h)
                else
                  (case (case ty of
                           PStr t \<Rightarrow> (case checkers h t of None \<Rightarrow> None | Some chk \<Rightarrow> Some (t, chk))
                         | _ \<Rightarrow> None) of
                     None \<Rightarrow> (Inl (LoginError 400 [] UNRECOGNIZED), h)
                   | Some (t, chk) \<Rightarrow>
                       (case chk authdict clientip of
                          Inl e \<Rightarrow> (Inl e, h)
                        | Inr result \<Rightarrow>
                            (if truthy result then
                               (let sess = (snd s)\<lparr>creds := Some (AList.update t result (creds_of (snd s)))\<rparr>
                                in (Inr (sess\<lparr>last_used := Some (clock_msec h)\<rparr>),
                                    save_session (fst s, sess) h))
                             else (Inr (snd s), h)))))))"

text \<open>
  The loop of lines 159 to 162: is there a flow all of whose stages are keys of
  \<^verbatim>\<open>creds\<close>? The first such flow ends the loop.
\<close>

fun flow_completed :: "string list list \<Rightarrow> pydict \<Rightarrow> bool" where
  "flow_completed [] c = False"
| "flow_completed (f # fs) c =
     (if card (set f - set (map fst c)) = 0 then True else flow_completed fs c)"

text \<open>
  \<^verbatim>\<open>check_auth\<close>. The result is the tuple \<^verbatim>\<open>(authed, dict, dict, session_id)\<close>; the
  second component is the credentials when \<open>authed\<close> holds and the response for the client
  otherwise.
\<close>

definition check_auth ::
  "string list list \<Rightarrow> pydict \<Rightarrow> string \<Rightarrow> auth_handler
     \<Rightarrow> ((error + bool \<times> pydict \<times> pydict \<times> string) \<times> auth_handler) option" where
  "check_auth flows clientdict0 clientip h =
     (let has_auth = (clientdict0 \<noteq> [] \<and> ''auth'' \<in> fst ` set clientdict0);
          authdict = (if has_auth
                      then (case map_of clientdict0 ''auth'' of Some v \<Rightarrow> v | None \<Rightarrow> PNone)
                      else PNone);
          clientdict1 = (if has_auth then AList.delete ''auth'' clientdict0 else clientdict0)
      in
      (case (if has_auth then py_contains authdict ''session'' else Inr False) of
        Inl e \<Rightarrow> Some (Inl e, h)
      | Inr has_sid \<Rightarrow>
      (case (if has_sid then py_getitem authdict ''session'' else Inr PNone) of
        Inl e \<Rightarrow> Some (Inl e, h)
      | Inr sid \<Rightarrow>
      (case get_session_info sid h of
        None \<Rightarrow> None
      | Some (Inl e, h1) \<Rightarrow> Some (Inl e, h1)
      | Some (Inr (s, sess0), h1) \<Rightarrow>
      (case check_auth_params clientdict1 (s, sess0) h1 of
        ((sess1, clientdict2), h2) \<Rightarrow>
      (if \<not> truthy authdict then
        Some (Inr (False, auth_dict_for_flows flows (s, sess1) h2, clientdict2, s), h2)
      else
      (case ensure_creds (s, sess1) h2 of
        (sess2, h3) \<Rightarrow>
      (case check_auth_stage authdict clientip (s, sess2) h3 of
        (Inl e, h4) \<Rightarrow> Some (Inl e, h4)
      | (Inr sess3, h4) \<Rightarrow>
      (if flow_completed flows (creds_of sess3) then
        Some (Inr (True, creds_of sess3, clientdict2, s), h4)
      else
        (let ret = auth_dict_for_flows flows (s, sess3) h4;
             ret = AList.update ''completed'' (PList (map PStr (map fst (creds_of sess3)))) ret
         in Some (Inr (False, ret, clientdict2, s), h4)))))))))))"

text \<open>
  \<^verbatim>\<open>add_oob_auth\<close>: the result of one stage, obtained out of band, is added to a
  session. The stage type is a string; the authdict is any value.
\<close>

definition add_oob_auth ::
  "string \<Rightarrow> pyval \<Rightarrow> string \<Rightarrow> auth_handler \<Rightarrow> ((error + bool) \<times> auth_handler) option" where
  "add_oob_auth stagetype authdict clientip h =
     (if checkers h stagetype = None then Some (Inl (LoginError 400 [] MISSING_PARAM), h)
      else
      (case py_contains authdict ''session'' of
        Inl e \<Rightarrow> Some (Inl e, h)
      | Inr False \<Rightarrow> Some (Inl (LoginError 400 [] MISSING_PARAM), h)
      | Inr True \<Rightarrow>
      (case py_getitem authdict ''session'' of
        Inl e \<Rightarrow> Some (Inl e, h)
      | Inr sid \<Rightarrow>
      (case get_session_info sid h of
        None \<Rightarrow> None
      | Some (Inl e, h1) \<Rightarrow> Some (Inl e, h1)
      | Some (Inr (s, sess0), h1) \<Rightarrow>
      (case ensure_creds (s, sess0) h1 of
        (sess, h2) \<Rightarrow>
      (case checkers h2 stagetype of
        None \<Rightarrow> Some (Inl KeyError, h2)
      | Some chk \<Rightarrow>
      (case chk authdict clientip of
        Inl e \<Rightarrow> Some (Inl e, h2)
      | Inr result \<Rightarrow>
          (if truthy result then
            Some (Inr True,
                  save_session
                    (s, sess\<lparr>creds := Some (AList.update stagetype result (creds_of sess))\<rparr>) h2)
          else Some (Inr False, h2)))))))))"

subsection \<open>Local password verification\<close>

text \<open>
  What the handler reads from \<^verbatim>\<open>hs.config\<close>.
\<close>

record hs_config =
  server_name :: string
  macaroon_secret_key :: string
  password_pepper :: string

text \<open>
  \<^verbatim>\<open>validate_hash\<close>. \<^verbatim>\<open>bcrypt.hashpw\<close> is a library function and a parameter here: it
  returns the hash of the password under the salt and cost it reads from its second
  argument, and raises (ValueError for a salt it cannot parse) otherwise. The stored hash
  comes from the account store and may be None. Strings are byte strings, so the
  \<^verbatim>\<open>encode('utf-8')\<close> is the identity.
\<close>

definition validate_hash ::
  "(string \<Rightarrow> string \<Rightarrow> error + string) \<Rightarrow> hs_config \<Rightarrow> string \<Rightarrow> string option \<Rightarrow> error + bool" where
  "validate_hash hashpw cfg password stored_hash =
     (case stored_hash of
        None \<Rightarrow> Inr False
      | Some sh \<Rightarrow>
          if sh \<noteq> [] then
            (case hashpw (password @ password_pepper cfg) sh of
               Inl e \<Rightarrow> Inl e
             | Inr hashed \<Rightarrow> Inr (hashed = sh))
          else Inr False)"

text \<open>The number of keys of a dict held as an association list.\<close>

definition py_len :: "('k \<times> 'v) list \<Rightarrow> nat" where
  "py_len d = length (remdups (map fst d))"

text \<open>
  \<^verbatim>\<open>_find_user_id_and_pwd_hash\<close>. The account store's
  \<^verbatim>\<open>get_users_by_id_case_insensitive\<close> is a parameter: it fails or returns the dict from
  the user ids that match, whatever their case, to their password hashes. With one entry
  \<^verbatim>\<open>popitem\<close> returns that entry.
\<close>

definition find_user_id_and_pwd_hash ::
  "(string \<Rightarrow> error + (string \<times> string option) list) \<Rightarrow> string
     \<Rightarrow> error + string \<times> string option" where
  "find_user_id_and_pwd_hash get_users_by_id_case_insensitive user_id =
     (case get_users_by_id_case_insensitive user_id of
        Inl e \<Rightarrow> Inl e
      | Inr user_infos \<Rightarrow>
          (if user_infos = [] then Inl (LoginError 403 [] FORBIDDEN)
           else if py_len user_infos > 1 then
             (case map_of user_infos user_id of
                None \<Rightarrow> Inl (LoginError 403 [] FORBIDDEN)
              | Some pwd_hash \<Rightarrow> Inr (user_id, pwd_hash))
           else Inr (hd user_infos)))"

text \<open>\<^verbatim>\<open>_check_local_password\<close>.\<close>

definition check_local_password ::
  "(string \<Rightarrow> error + (string \<times> string option) list) \<Rightarrow> (string \<Rightarrow> string \<Rightarrow> error + string)
     \<Rightarrow> hs_config \<Rightarrow> string \<Rightarrow> string \<Rightarrow> error + string" where
  "check_local_password get_users_by_id_case_insensitive hashpw cfg user_id password =
     (case find_user_id_and_pwd_hash get_users_by_id_case_insensitive user_id of
        Inl e \<Rightarrow> Inl e
      | Inr (user_id1, password_hash) \<Rightarrow>
          (case validate_hash hashpw cfg password password_hash of
             Inl e \<Rightarrow> Inl e
           | Inr result \<Rightarrow>
               if \<not> result then Inl (LoginError 403 [] FORBIDDEN) else Inr user_id1))"

subsection \<open>Macaroons\<close>

text \<open>
  A macaroon of pymacaroons, as far as the handler builds it: location, identifier
  (\<open>ident\<close>), key
  and the first-party caveats in the order in which they were added. Serialisation and the
  signature belong to the library; \<open>serialize\<close> is a parameter of the generators.
\<close>

record macaroon =
  location :: string
  ident :: string
  key :: string
  caveats :: "string list"

definition add_first_party_caveat :: "string \<Rightarrow> macaroon \<Rightarrow> macaroon" where
  "add_first_party_caveat c m = m\<lparr>caveats := caveats m @ [c]\<rparr>"

text \<open>The decimal numeral that \<^verbatim>\<open>"%d" % n\<close> prints.\<close>

fun str_of_nat :: "nat \<Rightarrow> string" where
  "str_of_nat n =
     (if n < 10 then [''0123456789'' ! n]
      else str_of_nat (n div 10) @ [''0123456789'' ! (n mod 10)])"

definition str_of_int :: "int \<Rightarrow> string" where
  "str_of_int i = (if i < 0 then CHR ''-'' # str_of_nat (nat (- i)) else str_of_nat (nat i))"

text \<open>\<^verbatim>\<open>_generate_base_macaroon\<close>.\<close>

definition generate_base_macaroon :: "hs_config \<Rightarrow> string \<Rightarrow> macaroon" where
  "generate_base_macaroon cfg user_id =
     (let m = \<lparr>location = server_name cfg, ident = ''key'',
                key = macaroon_secret_key cfg, caveats = []\<rparr>;
          m = add_first_party_caveat ''gen = 1'' m;
          m = add_first_party_caveat (''user_id = '' @ user_id) m
      in m)"

text \<open>
  The generators. \<open>now\<close> is the reading of the clock. An optional argument is an option:
  \<open>None\<close> is the call that omits it and takes the default of the signature.
\<close>

definition generate_access_token ::
  "(macaroon \<Rightarrow> string) \<Rightarrow> hs_config \<Rightarrow> int \<Rightarrow> string \<Rightarrow> string list option \<Rightarrow> int option \<Rightarrow> string" where
  "generate_access_token serialize cfg now user_id extra_caveats duration_in_ms =
     (let duration = (case duration_in_ms of None \<Rightarrow> 60 * 60 * 1000 | Some d \<Rightarrow> d);
          extra = (case extra_caveats of None \<Rightarrow> [] | Some cs \<Rightarrow> if cs \<noteq> [] then cs else []);
          m = generate_base_macaroon cfg user_id;
          m = add_first_party_caveat ''type = access'' m;
          expiry = now + duration;
          m = add_first_party_caveat (''time < '' @ str_of_int expiry) m;
          m = fold add_first_party_caveat extra m
      in serialize m)"

text \<open>\<open>nonce\<close> is the result of \<^verbatim>\<open>stringutils.random_string_with_symbols(16)\<close>.\<close>

definition generate_refresh_token ::
  "(macaroon \<Rightarrow> string) \<Rightarrow> hs_config \<Rightarrow> string \<Rightarrow> string \<Rightarrow> string" where
  "generate_refresh_token serialize cfg nonce user_id =
     (let m = generate_base_macaroon cfg user_id;
          m = add_first_party_caveat ''type = refresh'' m;
          m = add_first_party_caveat (''nonce = '' @ nonce) m
      in serialize m)"

definition generate_short_term_login_token ::
  "(macaroon \<Rightarrow> string) \<Rightarrow> hs_config \<Rightarrow> int \<Rightarrow> string \<Rightarrow> int option \<Rightarrow> string" where
  "generate_short_term_login_token serialize cfg now user_id duration_in_ms =
     (let duration = (case duration_in_ms of None \<Rightarrow> 2 * 60 * 1000 | Some d \<Rightarrow> d);
          m = generate_base_macaroon cfg user_id;
          m = add_first_party_caveat ''type = login'' m;
          expiry = now + duration;
          m = add_first_party_caveat (''time < '' @ str_of_int expiry) m
      in serialize m)"

definition generate_delete_pusher_token ::
  "(macaroon \<Rightarrow> string) \<Rightarrow> hs_config \<Rightarrow> string \<Rightarrow> string" where
  "generate_delete_pusher_token serialize cfg user_id =
     (let m = generate_base_macaroon cfg user_id;
          m = add_first_party_caveat ''type = delete_pusher'' m
      in serialize m)"

text \<open>
  \<^verbatim>\<open>validate_short_term_login_token_and_get_user_id\<close>. The three collaborators are
  parameters: \<^verbatim>\<open>pymacaroons.Macaroon.deserialize\<close>, and the auth API's
  \<^verbatim>\<open>get_user_id_from_macaroon\<close> and \<^verbatim>\<open>validate_macaroon\<close>; each returns or raises.
  The \<^verbatim>\<open>except\<close> clause catches MacaroonException, TypeError and ValueError (each with
  its subclasses) and nothing else.
\<close>

definition validate_short_term_login_token_and_get_user_id ::
  "(string \<Rightarrow> error + macaroon) \<Rightarrow> (macaroon \<Rightarrow> error + string)
     \<Rightarrow> (macaroon \<Rightarrow> string \<Rightarrow> bool \<Rightarrow> string \<Rightarrow> error + unit) \<Rightarrow> string \<Rightarrow> error + string" where
  "validate_short_term_login_token_and_get_user_id deserialize get_user_id_from_macaroon
       validate_macaroon login_token =
     (case (case deserialize login_token of
              Inl e \<Rightarrow> Inl e
            | Inr m \<Rightarrow>
                (case get_user_id_from_macaroon m of
                   Inl e \<Rightarrow> Inl e
                 | Inr user_id \<Rightarrow>
                     (case validate_macaroon m ''login'' True user_id of
                        Inl e \<Rightarrow> Inl e
                      | Inr u \<Rightarrow> Inr user_id))) of
        Inl e \<Rightarrow>
          if e = MacaroonException \<or> e = TypeError \<or> e = ValueError
          then Inl (AuthError 401 ''Invalid token'' UNKNOWN_TOKEN)
          else Inl e
      | Inr user_id \<Rightarrow> Inr user_id)"

subsection \<open>A sample handler\<close>

text \<open>
  A handler with two sessions and two checkers, used to run the operations on concrete
  inputs: \<open>''old''\<close> was last saved at 1000 ms, \<open>''live''\<close> exactly 48 hours before the
  clock reading; the dummy stage always succeeds, the password stage rejects and the
  pending stage returns None.
\<close>

definition sample_handler :: auth_handler where
  "sample_handler =
     \<lparr>sessions = [''old'' \<mapsto> new_session\<lparr>last_used := Some 1000\<rparr>,
                  ''live'' \<mapsto> new_session\<lparr>creds := Some [(''m.login.dummy'', PBool True)],
                                           last_used := Some 27200000\<rparr>],
      checkers = [''m.login.dummy'' \<mapsto> (\<lambda>authdict clientip. Inr (PBool True)),
                  ''m.login.password'' \<mapsto> (\<lambda>authdict clientip. Inl (LoginError 403 [] FORBIDDEN)),
                  ''m.login.pending'' \<mapsto> (\<lambda>authdict clientip. Inr PNone)],
      clock_msec = 200000000,
      random_strings = [''live'', ''fresh''],
      login_type_recaptcha = ''m.login.recaptcha'',
      recaptcha_public_key = PStr ''key''\<rparr>"

definition sample_auth :: "string \<Rightarrow> pyval" where
  "sample_auth stage = PDict [(''session'', PStr ''live''), (''type'', PStr stage)]"

text \<open>
  A configuration, a stand-in for \<^verbatim>\<open>bcrypt.hashpw\<close> with its interface (the hash
  starts with the salt's prefix; a salt without the prefix raises ValueError) and an account
  store with two ids that differ by case only and one account whose stored hash is not a
  bcrypt hash.
\<close>

definition sample_config :: hs_config where
  "sample_config = \<lparr>server_name = ''x'', macaroon_secret_key = ''secret'', password_pepper = ''pepper''\<rparr>"

definition sample_hashpw :: "string \<Rightarrow> string \<Rightarrow> error + string" where
  "sample_hashpw password salt =
     (if take 7 salt = ''$2a$12$'' then Inr (''$2a$12$'' @ rev password) else Inl ValueError)"

definition sample_store :: "string \<Rightarrow> error + (string \<times> string option) list" where
  "sample_store user_id =
     (if user_id = ''@bob:x'' \<or> user_id = ''@Bob:x'' \<or> user_id = ''@BOB:x''
      then Inr [(''@bob:x'', Some ''$2a$12$reppeptcerroc''), (''@Bob:x'', None)]
      else if user_id = ''@amy:x'' \<or> user_id = ''@Amy:x''
      then Inr [(''@amy:x'', Some ''$2a$12$reppeptcerroc'')]
      else if user_id = ''@eve:x''
      then Inr [(''@eve:x'', Some ''not-a-bcrypt-hash'')]
      else Inr [])"





section \<open>Properties\<close>

subsection \<open>The session store\<close>

lemma SESSION_EXPIRE_MS_value: "SESSION_EXPIRE_MS = 172800000"
  by (simp add: SESSION_EXPIRE_MS_def)

lemma prune_sessions_lookup:
  "sessions (prune_sessions h) k =
     (case sessions h k of
        None \<Rightarrow> None
      | Some sess \<Rightarrow>
          if (case last_used sess of None \<Rightarrow> 0 | Some t \<Rightarrow> t) < clock_msec h - SESSION_EXPIRE_MS
          then None else Some sess)"
  by (simp add: prune_sessions_def Let_def split: option.split)

lemma prune_sessions_fields [simp]:
  "clock_msec (prune_sessions h) = clock_msec h"
  "checkers (prune_sessions h) = checkers h"
  "random_strings (prune_sessions h) = random_strings h"
  "login_type_recaptcha (prune_sessions h) = login_type_recaptcha h"
  "recaptcha_public_key (prune_sessions h) = recaptcha_public_key h"
  by (simp_all add: prune_sessions_def)

lemma save_session_fields [simp]:
  "clock_msec (save_session s h) = clock_msec h"
  "checkers (save_session s h) = checkers h"
  "random_strings (save_session s h) = random_strings h"
  "login_type_recaptcha (save_session s h) = login_type_recaptcha h"
  "recaptcha_public_key (save_session s h) = recaptcha_public_key h"
  by (simp_all add: save_session_def)

lemma save_session_self:
  "sessions (save_session (k, d) h) k = Some (d\<lparr>last_used := Some (clock_msec h)\<rparr>)"
  by (simp add: save_session_def prune_sessions_lookup SESSION_EXPIRE_MS_def)

lemma save_session_other:
  "k \<noteq> fst s \<Longrightarrow>
   sessions (save_session s h) k =
     (case sessions h k of
        None \<Rightarrow> None
      | Some sess \<Rightarrow>
          if (case last_used sess of None \<Rightarrow> 0 | Some t \<Rightarrow> t) < clock_msec h - SESSION_EXPIRE_MS
          then None else Some sess)"
  by (simp add: save_session_def prune_sessions_lookup split: option.split)

lemma fresh_session_id_fresh:
  "fresh_session_id tbl rs = Some (new, rest) \<Longrightarrow> tbl new = None"
  by (induction rs) (auto split: if_splits)

lemma create_session_result:
  assumes "create_session h = Some (r, h1)"
  shows "\<exists>s. r = Inr (s, new_session) \<and> sessions h s = None
           \<and> sessions h1 = (sessions h)(s \<mapsto> new_session)
           \<and> checkers h1 = checkers h \<and> clock_msec h1 = clock_msec h
           \<and> login_type_recaptcha h1 = login_type_recaptcha h
           \<and> recaptcha_public_key h1 = recaptcha_public_key h"
  using assms
  by (auto simp: create_session_def split: option.splits dest: fresh_session_id_fresh)

lemma get_session_info_existing:
  "sessions h S = Some d \<Longrightarrow> S \<noteq> [] \<Longrightarrow> get_session_info (PStr S) h = Some (Inr (S, d), h)"
  by (simp add: get_session_info_def)

lemma get_session_info_error:
  "get_session_info sid h = Some (Inl e, h1) \<Longrightarrow> h1 = h \<and> e = TypeError"
  by (auto simp: get_session_info_def split: if_splits option.splits pyval.splits prod.splits
           dest: create_session_result)

lemma get_session_info_result:
  assumes "get_session_info sid h = Some (Inr (s, sess), h1)"
  shows "sessions h1 s = Some sess \<and> checkers h1 = checkers h \<and> clock_msec h1 = clock_msec h
         \<and> login_type_recaptcha h1 = login_type_recaptcha h
         \<and> recaptcha_public_key h1 = recaptcha_public_key h
         \<and> (\<forall>k. k \<noteq> s \<longrightarrow> sessions h1 k = sessions h k)
         \<and> ((h1 = h \<and> sid = PStr s \<and> s \<noteq> []) \<or> (sessions h s = None \<and> sess = new_session))"
  using assms
  by (auto simp: get_session_info_def split: if_splits option.splits pyval.splits prod.splits
           dest!: create_session_result)

subsection \<open>The steps of check\_auth\<close>

lemma check_auth_params_result:
  assumes "check_auth_params cd (s, sess0) h = ((sess1, cd2), h2)" and "sessions h s = Some sess0"
  shows "sessions h2 s = Some sess1 \<and> creds sess1 = creds sess0
         \<and> checkers h2 = checkers h \<and> clock_msec h2 = clock_msec h
         \<and> login_type_recaptcha h2 = login_type_recaptcha h
         \<and> recaptcha_public_key h2 = recaptcha_public_key h
         \<and> (cd \<noteq> [] \<longrightarrow> cd2 = cd \<and> clientdict sess1 = Some cd \<and> h2 = save_session (s, sess0\<lparr>clientdict := Some cd\<rparr>) h)
         \<and> (cd = [] \<longrightarrow> h2 = h \<and> sess1 = sess0
               \<and> cd2 = (case clientdict sess0 of Some stored \<Rightarrow> stored | None \<Rightarrow> []))"
  using assms
  by (auto simp: check_auth_params_def Let_def save_session_self split: if_splits option.splits)

lemma ensure_creds_result:
  assumes "ensure_creds (s, sess1) h = (sess2, h2)" and "sessions h s = Some sess1"
  shows "sessions h2 s = Some sess2 \<and> creds sess2 = Some (creds_of sess1)
         \<and> clientdict sess2 = clientdict sess1 \<and> last_used sess2 = last_used sess1
         \<and> serverdict sess2 = serverdict sess1
         \<and> checkers h2 = checkers h \<and> clock_msec h2 = clock_msec h
         \<and> login_type_recaptcha h2 = login_type_recaptcha h
         \<and> recaptcha_public_key h2 = recaptcha_public_key h
         \<and> (\<forall>k. k \<noteq> s \<longrightarrow> sessions h2 k = sessions h k)"
  using assms
  by (auto simp: ensure_creds_def Let_def creds_of_def split: if_splits option.splits)

lemma check_auth_stage_error:
  "check_auth_stage authdict ip (s, sess) h = (Inl e, h4) \<Longrightarrow> h4 = h"
  by (auto simp: check_auth_stage_def Let_def split: sum.splits bool.splits if_splits option.splits pyval.splits prod.splits)

lemma check_auth_stage_result:
  assumes "check_auth_stage authdict ip (s, sess) h = (Inr sess3, h4)"
  shows "(sess3 = sess \<and> h4 = h)
         \<or> (\<exists>t chk r. py_getitem authdict ''type'' = Inr (PStr t) \<and> checkers h t = Some chk
               \<and> chk authdict ip = Inr r \<and> truthy r
               \<and> sess3 = sess\<lparr>creds := Some (AList.update t r (creds_of sess)),
                               last_used := Some (clock_msec h)\<rparr>
               \<and> h4 = save_session (s, sess\<lparr>creds := Some (AList.update t r (creds_of sess))\<rparr>) h)"
  using assms
  by (auto simp: check_auth_stage_def Let_def split: sum.splits bool.splits if_splits option.splits pyval.splits prod.splits)

lemma check_auth_stage_table:
  assumes "check_auth_stage authdict ip (s, sess) h = (Inr sess3, h4)" and "sessions h s = Some sess"
  shows "sessions h4 s = Some sess3 \<and> clientdict sess3 = clientdict sess
         \<and> (creds sess \<noteq> None \<longrightarrow> creds sess3 \<noteq> None)"
  using check_auth_stage_result [OF assms(1)] assms(2)
  by (auto simp: save_session_self)

lemma flow_completed_iff:
  "flow_completed flows c = (\<exists>f\<in>set flows. set f \<subseteq> fst ` set c)"
  by (induction flows) auto

lemma map_of_auth_key:
  "map_of cd k = Some v \<Longrightarrow> cd \<noteq> [] \<and> k \<in> fst ` set cd"
  by (force dest: map_of_SomeD simp: image_iff)

lemma py_getitem_contains:
  "py_getitem authdict k = Inr v \<Longrightarrow> py_contains authdict k = Inr True"
  by (cases authdict) (force split: option.splits dest: map_of_SomeD simp: image_iff)+

lemma check_auth_trace:
  assumes ret: "check_auth flows cd ip h = Some (Inr (authed, r, p, s), h')"
      and auth: "map_of cd ''auth'' = Some authdict" and tr: "truthy authdict"
  shows "\<exists>sid sess0 h1 sess1 h2 sess2 h3 sess3.
           get_session_info sid h = Some (Inr (s, sess0), h1)
         \<and> (sid = PNone \<or> py_getitem authdict ''session'' = Inr sid)
         \<and> check_auth_params (AList.delete ''auth'' cd) (s, sess0) h1 = ((sess1, p), h2)
         \<and> ensure_creds (s, sess1) h2 = (sess2, h3)
         \<and> check_auth_stage authdict ip (s, sess2) h3 = (Inr sess3, h')
         \<and> authed = flow_completed flows (creds_of sess3)
         \<and> (authed \<longrightarrow> r = creds_of sess3)"
proof -
  from auth have ha: "cd \<noteq> []" "''auth'' \<in> fst ` set cd" by (auto dest: map_of_auth_key)
  show ?thesis
    using ret tr
    unfolding check_auth_def Let_def
    by (simp add: ha auth split: sum.splits option.splits prod.splits if_splits) blast+
qed

lemma check_auth_named_session:
  assumes auth: "map_of cd ''auth'' = Some authdict"
      and sid: "py_getitem authdict ''session'' = Inr (PStr S)" and ne: "S \<noteq> []"
      and tbl: "sessions h S = Some d"
  shows "check_auth flows cd ip h =
     (case check_auth_params (AList.delete ''auth'' cd) (S, d) h of
        ((sess1, clientdict2), h2) \<Rightarrow>
      (if \<not> truthy authdict then
        Some (Inr (False, auth_dict_for_flows flows (S, sess1) h2, clientdict2, S), h2)
      else
      (case ensure_creds (S, sess1) h2 of
        (sess2, h3) \<Rightarrow>
      (case check_auth_stage authdict ip (S, sess2) h3 of
        (Inl e, h4) \<Rightarrow> Some (Inl e, h4)
      | (Inr sess3, h4) \<Rightarrow>
      (if flow_completed flows (creds_of sess3) then
        Some (Inr (True, creds_of sess3, clientdict2, S), h4)
      else
        (let ret = auth_dict_for_flows flows (S, sess3) h4;
             ret = AList.update ''completed'' (PList (map PStr (map fst (creds_of sess3)))) ret
         in Some (Inr (False, ret, clientdict2, S), h4)))))))"
proof -
  from auth have ha: "cd \<noteq> []" "''auth'' \<in> fst ` set cd" by (auto dest: map_of_auth_key)
  show ?thesis
    unfolding check_auth_def Let_def
    by (simp add: ha auth sid py_getitem_contains [OF sid] get_session_info_existing [OF tbl ne]
             cong del: if_weak_cong)
qed

lemma check_auth_returns_trace:
  assumes "check_auth flows cd ip h = Some (Inr (authed, r, p, s), h')"
  shows "\<exists>authdict sid sess0 h1 sess1 h2.
           get_session_info sid h = Some (Inr (s, sess0), h1)
         \<and> check_auth_params (AList.delete ''auth'' cd) (s, sess0) h1 = ((sess1, p), h2)
         \<and> ((\<not> truthy authdict \<and> h' = h2)
            \<or> (\<exists>sess2 h3 sess3. ensure_creds (s, sess1) h2 = (sess2, h3)
                  \<and> check_auth_stage authdict ip (s, sess2) h3 = (Inr sess3, h')))"
proof (cases "cd \<noteq> [] \<and> ''auth'' \<in> fst ` set cd")
  case True
  with assms show ?thesis
    unfolding check_auth_def Let_def
    by (simp split: sum.splits option.splits prod.splits if_splits) blast+
next
  case False
  then have d: "AList.delete ''auth'' cd = cd"
    by (cases "cd = []") (simp_all add: delete_id)
  from False have ha: "(cd \<noteq> [] \<and> ''auth'' \<in> fst ` set cd) = False" by simp
  from assms obtain sess0 h1 sess1 where
    "get_session_info PNone h = Some (Inr (s, sess0), h1)"
    "check_auth_params cd (s, sess0) h1 = ((sess1, p), h')"
    unfolding check_auth_def Let_def ha
    by (simp split: sum.splits option.splits prod.splits if_splits)
  with d have "get_session_info PNone h = Some (Inr (s, sess0), h1)
         \<and> check_auth_params (AList.delete ''auth'' cd) (s, sess0) h1 = ((sess1, p), h')
         \<and> ((\<not> truthy PNone \<and> h' = h')
            \<or> (\<exists>sess2 h3 sess3. ensure_creds (s, sess1) h' = (sess2, h3)
                  \<and> check_auth_stage PNone ip (s, sess2) h3 = (Inr sess3, h')))"
    by simp
  then show ?thesis by blast
qed

lemma check_auth_session_after:
  assumes run: "check_auth flows cd ip h = Some (Inr (authed, r, p, s), h')"
      and ne: "AList.delete ''auth'' cd \<noteq> []"
  shows "p = AList.delete ''auth'' cd \<and> (\<exists>sess. sessions h' s = Some sess \<and> clientdict sess = Some p)"
proof -
  from check_auth_returns_trace [OF run] obtain authdict sid sess0 h1 sess1 h2 where
    g: "get_session_info sid h = Some (Inr (s, sess0), h1)"
    and p: "check_auth_params (AList.delete ''auth'' cd) (s, sess0) h1 = ((sess1, p), h2)"
    and rest: "(\<not> truthy authdict \<and> h' = h2)
            \<or> (\<exists>sess2 h3 sess3. ensure_creds (s, sess1) h2 = (sess2, h3)
                  \<and> check_auth_stage authdict ip (s, sess2) h3 = (Inr sess3, h'))"
    by blast
  from get_session_info_result [OF g] have t1: "sessions h1 s = Some sess0" by simp
  from check_auth_params_result [OF p t1] ne
  have t2: "sessions h2 s = Some sess1" "p = AList.delete ''auth'' cd" "clientdict sess1 = Some p"
    by blast+
  from rest show ?thesis
  proof
    assume "\<not> truthy authdict \<and> h' = h2"
    with t2 show ?thesis by simp
  next
    assume "\<exists>sess2 h3 sess3. ensure_creds (s, sess1) h2 = (sess2, h3)
                  \<and> check_auth_stage authdict ip (s, sess2) h3 = (Inr sess3, h')"
    then obtain sess2 h3 sess3 where e: "ensure_creds (s, sess1) h2 = (sess2, h3)"
      and c: "check_auth_stage authdict ip (s, sess2) h3 = (Inr sess3, h')" by blast
    from ensure_creds_result [OF e t2(1)]
    have t3: "sessions h3 s = Some sess2" "clientdict sess2 = clientdict sess1" by simp_all
    from check_auth_stage_table [OF c t3(1)] t3(2) t2 show ?thesis by simp
  qed
qed

lemma check_auth_probe_creates:
  assumes "check_auth flows [] ip h = Some (res, h1)"
  shows "\<exists>A. get_session_info PNone h = Some (Inr (A, new_session), h1) \<and> sessions h A = None
           \<and> res = Inr (False, auth_dict_for_flows flows (A, new_session) h1, [], A)"
  using assms
  by (auto simp: check_auth_def get_session_info_def check_auth_params_def new_session_def
           split: option.splits prod.splits sum.splits dest!: create_session_result)

lemma fresh_session_id_enough:
  "\<exists>r\<in>set rs. tbl r = None \<Longrightarrow> fresh_session_id tbl rs \<noteq> None"
  by (induction rs) auto

lemma get_session_info_enough:
  assumes "\<exists>r\<in>set (random_strings h). sessions h r = None"
  shows "get_session_info sid h \<noteq> None"
  using fresh_session_id_enough [OF assms]
  by (auto simp: get_session_info_def create_session_def split: option.splits pyval.splits prod.splits)

lemma check_auth_None:
  "check_auth flows cd ip h = None \<Longrightarrow> \<exists>sid. get_session_info sid h = None"
  unfolding check_auth_def Let_def
  by (simp split: sum.splits option.splits prod.splits if_splits) blast+

lemma check_auth_enough:
  assumes "\<exists>r\<in>set (random_strings h). sessions h r = None"
  shows "check_auth flows cd ip h \<noteq> None"
  using get_session_info_enough [OF assms] check_auth_None by blast

lemma add_oob_auth_None:
  "add_oob_auth stagetype authdict ip h = None \<Longrightarrow> \<exists>sid. get_session_info sid h = None"
  unfolding add_oob_auth_def
  by (simp split: sum.splits option.splits prod.splits if_splits bool.splits) blast+

lemma add_oob_auth_enough:
  assumes "\<exists>r\<in>set (random_strings h). sessions h r = None"
  shows "add_oob_auth stagetype authdict ip h \<noteq> None"
  using get_session_info_enough [OF assms] add_oob_auth_None by blast

lemma check_auth_named_session_returns:
  assumes auth: "map_of cd ''auth'' = Some authdict"
      and sid: "py_getitem authdict ''session'' = Inr (PStr S)" and ne: "S \<noteq> []"
      and tbl: "sessions h S = Some d"
  shows "check_auth flows cd ip h \<noteq> None"
  unfolding check_auth_named_session [OF auth sid ne tbl]
  by (simp add: Let_def split: prod.splits sum.splits)

lemma check_auth_completion_returned:
  assumes ret: "check_auth flows cd ip h = Some (Inr (authed, r, p, s), h')"
      and auth: "map_of cd ''auth'' = Some authdict" and tr: "truthy authdict"
  shows "\<exists>sess C. sessions h' s = Some sess \<and> creds sess = Some C
           \<and> authed = (\<exists>f\<in>set flows. set f \<subseteq> fst ` set C)
           \<and> (authed \<longrightarrow> r = C)"
proof -
  from check_auth_trace [OF ret auth tr] obtain sid sess0 h1 sess1 h2 sess2 h3 sess3 where
    g: "get_session_info sid h = Some (Inr (s, sess0), h1)"
    and p: "check_auth_params (AList.delete ''auth'' cd) (s, sess0) h1 = ((sess1, p), h2)"
    and e: "ensure_creds (s, sess1) h2 = (sess2, h3)"
    and c: "check_auth_stage authdict ip (s, sess2) h3 = (Inr sess3, h')"
    and a: "authed = flow_completed flows (creds_of sess3)" "authed \<longrightarrow> r = creds_of sess3"
    by blast
  from get_session_info_result [OF g] have t1: "sessions h1 s = Some sess0" by simp
  from check_auth_params_result [OF p t1] have t2: "sessions h2 s = Some sess1" by simp
  from ensure_creds_result [OF e t2] have t3: "sessions h3 s = Some sess2" "creds sess2 \<noteq> None"
    by simp_all
  from check_auth_stage_table [OF c t3(1)] t3(2)
  have t4: "sessions h' s = Some sess3" "creds sess3 \<noteq> None" by simp_all
  then obtain C where C: "creds sess3 = Some C" by blast
  then have "creds_of sess3 = C" by (simp add: creds_of_def)
  with a t4 C show ?thesis by (simp add: flow_completed_iff)
qed

lemma check_auth_preserves_creds_run:
  assumes auth: "map_of cd ''auth'' = Some authdict"
      and sid: "py_getitem authdict ''session'' = Inr (PStr S)" and ne: "S \<noteq> []"
      and tbl: "sessions h S = Some d"
      and run: "check_auth flows cd ip h = Some (res, h')"
  shows "\<exists>d'. sessions h' S = Some d'
           \<and> ((\<exists>e. res = Inl e) \<longrightarrow> creds_of d' = creds_of d)
           \<and> (creds_of d' \<noteq> creds_of d \<longrightarrow>
                (\<exists>t chk result. py_getitem authdict ''type'' = Inr (PStr t)
                   \<and> checkers h t = Some chk \<and> chk authdict ip = Inr result \<and> truthy result
                   \<and> creds_of d' = AList.update t result (creds_of d)
                   \<and> last_used d' = Some (clock_msec h)))"
proof -
  obtain sess1 p h2 where 1: "check_auth_params (AList.delete ''auth'' cd) (S, d) h = ((sess1, p), h2)"
    by (metis surj_pair)
  note r1 = check_auth_params_result [OF 1 tbl]
  show ?thesis
  proof (cases "truthy authdict")
    case False
    with run r1 show ?thesis
      by (simp add: check_auth_named_session [OF auth sid ne tbl] 1 creds_of_def)
  next
    case True
    obtain sess2 h3 where 2: "ensure_creds (S, sess1) h2 = (sess2, h3)"
      by (metis surj_pair)
    from r1 have t2: "sessions h2 S = Some sess1" by simp
    note r2 = ensure_creds_result [OF 2 t2]
    have c2: "creds_of sess2 = creds_of d"
      using r1 r2 by (simp add: creds_of_def)
    obtain out h4 where 3: "check_auth_stage authdict ip (S, sess2) h3 = (out, h4)"
      by (metis surj_pair)
    show ?thesis
    proof (cases out)
      case (Inl e)
      with 3 have "h4 = h3" by (auto dest: check_auth_stage_error)
      with run True Inl 1 2 3 r2 c2 show ?thesis
        by (simp add: check_auth_named_session [OF auth sid ne tbl])
    next
      case (Inr sess3)
      with 3 have st3: "check_auth_stage authdict ip (S, sess2) h3 = (Inr sess3, h4)" by simp
      from run True Inr 1 2 3 have h': "h' = h4" and res: "\<not> (\<exists>e. res = Inl e)"
        by (auto simp: check_auth_named_session [OF auth sid ne tbl] Let_def split: if_splits)
      from check_auth_stage_result [OF st3] show ?thesis
      proof
        assume "sess3 = sess2 \<and> h4 = h3"
        with h' res r2 c2 show ?thesis by simp
      next
        assume "\<exists>t chk r. py_getitem authdict ''type'' = Inr (PStr t) \<and> checkers h3 t = Some chk
               \<and> chk authdict ip = Inr r \<and> truthy r
               \<and> sess3 = sess2\<lparr>creds := Some (AList.update t r (creds_of sess2)),
                               last_used := Some (clock_msec h3)\<rparr>
               \<and> h4 = save_session (S, sess2\<lparr>creds := Some (AList.update t r (creds_of sess2))\<rparr>) h3"
        then obtain t chk r where
          a: "py_getitem authdict ''type'' = Inr (PStr t)" "checkers h3 t = Some chk"
             "chk authdict ip = Inr r" "truthy r"
          and b: "h4 = save_session (S, sess2\<lparr>creds := Some (AList.update t r (creds_of sess2))\<rparr>) h3"
          by blast
        have "sessions h' S = Some (sess2\<lparr>creds := Some (AList.update t r (creds_of sess2)),
                                         last_used := Some (clock_msec h3)\<rparr>)"
          using h' b by (simp add: save_session_self)
        with a r1 r2 c2 res show ?thesis
          by (auto simp: creds_of_def)
      qed
    qed
  qed
qed

lemma check_auth_params_restored:
  assumes first: "check_auth flows1 cd1 ip1 h = Some (Inr (authed1, r1, p1, S), h1)"
      and params: "AList.delete ''auth'' cd1 \<noteq> []"
      and ne: "S \<noteq> []"
      and live: "sessions later S = Some sess" "clientdict sess = Some (AList.delete ''auth'' cd1)"
      and auth2: "map_of cd2 ''auth'' = Some authdict2"
      and sid2: "py_getitem authdict2 ''session'' = Inr (PStr S)"
      and none2: "AList.delete ''auth'' cd2 = []"
      and second: "check_auth flows2 cd2 ip2 later = Some (Inr (authed2, r2, p2, S2), h2)"
  shows "p1 = AList.delete ''auth'' cd1
         \<and> (\<exists>sess1. sessions h1 S = Some sess1 \<and> clientdict sess1 = Some p1)
         \<and> p2 = p1 \<and> S2 = S"
proof -
  from check_auth_session_after [OF first params] obtain sess1 where
    p1: "p1 = AList.delete ''auth'' cd1" and t: "sessions h1 S = Some sess1"
    and c: "clientdict sess1 = Some p1" by blast
  from p1 live have c': "clientdict sess = Some p1" by simp
  have pp: "check_auth_params [] (S, sess) later = ((sess, p1), later)"
    using c' by (simp add: check_auth_params_def)
  from second have "p2 = p1 \<and> S2 = S"
    unfolding check_auth_named_session [OF auth2 sid2 ne live(1)] none2 pp
    by (auto simp: Let_def split: if_splits prod.splits sum.splits)
  with p1 t c show ?thesis by simp
qed

lemma check_auth_stage_truthy:
  assumes "py_getitem authdict ''type'' = Inr (PStr t)" and "checkers h t = Some chk"
      and "chk authdict ip = Inr result" and "truthy result"
  shows "check_auth_stage authdict ip (s, sess) h =
           (Inr (sess\<lparr>creds := Some (AList.update t result (creds_of sess)),
                        last_used := Some (clock_msec h)\<rparr>),
            save_session (s, sess\<lparr>creds := Some (AList.update t result (creds_of sess))\<rparr>) h)"
  using assms by (simp add: check_auth_stage_def Let_def py_getitem_contains [OF assms(1)])

lemma check_auth_stage_falsy:
  assumes "py_getitem authdict ''type'' = Inr (PStr t)" and "checkers h t = Some chk"
      and "chk authdict ip = Inr result" and "\<not> truthy result"
  shows "check_auth_stage authdict ip (s, sess) h = (Inr sess, h)"
  using assms by (simp add: check_auth_stage_def py_getitem_contains [OF assms(1)])

lemma check_auth_params_others:
  assumes "check_auth_params cd (s, sess0) h = ((sess1, cd2), h2)" and "k \<noteq> s"
  shows "sessions h2 k = sessions h k \<or> sessions h2 k = None"
  using assms
  by (auto simp: check_auth_params_def Let_def save_session_other split: if_splits option.splits)

lemma check_auth_stored_and_saved:
  assumes auth: "map_of cd ''auth'' = Some authdict"
      and sid: "py_getitem authdict ''session'' = Inr (PStr S)" and ne: "S \<noteq> []"
      and tbl: "sessions h S = Some d"
      and ty: "py_getitem authdict ''type'' = Inr (PStr t)" and chk: "checkers h t = Some chk"
      and out: "chk authdict ip = Inr result"
      and run: "check_auth flows cd ip h = Some (res, h')"
  shows "if truthy result
         then (\<exists>authed r p. res = Inr (authed, r, p, S))
              \<and> (\<exists>d'. sessions h' S = Some d'
                    \<and> creds d' = Some (AList.update t result (creds_of d))
                    \<and> last_used d' = Some (clock_msec h))
              \<and> (\<forall>k a. k \<noteq> S \<and> sessions h k = Some a
                    \<and> (case last_used a of None \<Rightarrow> 0 | Some u \<Rightarrow> u) < clock_msec h - SESSION_EXPIRE_MS
                    \<longrightarrow> sessions h' k = None)
         else (\<exists>authed r p. res = Inr (authed, r, p, S))
              \<and> (\<exists>d'. sessions h' S = Some d' \<and> creds_of d' = creds_of d)"
proof -
  from sid have tr: "truthy authdict"
    by (cases authdict) (auto split: option.splits)
  obtain sess1 p h2 where 1: "check_auth_params (AList.delete ''auth'' cd) (S, d) h = ((sess1, p), h2)"
    by (metis surj_pair)
  note r1 = check_auth_params_result [OF 1 tbl]
  obtain sess2 h3 where 2: "ensure_creds (S, sess1) h2 = (sess2, h3)"
    by (metis surj_pair)
  from r1 have t2: "sessions h2 S = Some sess1" by simp
  note r2 = ensure_creds_result [OF 2 t2]
  have c2: "creds_of sess2 = creds_of d"
    using r1 r2 by (simp add: creds_of_def)
  have chk3: "checkers h3 t = Some chk" and clk3: "clock_msec h3 = clock_msec h"
    using r1 r2 chk by simp_all
  have t3: "sessions h3 S = Some sess2" using r2 by simp
  show ?thesis
  proof (cases "truthy result")
    case True
    note st = check_auth_stage_truthy [OF ty chk3 out True, of S sess2]
    from run tr 1 2 st
    have res: "\<exists>authed r p. res = Inr (authed, r, p, S)"
      and h': "h' = save_session (S, sess2\<lparr>creds := Some (AList.update t result (creds_of sess2))\<rparr>) h3"
      by (auto simp: check_auth_named_session [OF auth sid ne tbl] Let_def split: if_splits)
    have a: "\<exists>d'. sessions h' S = Some d'
                    \<and> creds d' = Some (AList.update t result (creds_of d))
                    \<and> last_used d' = Some (clock_msec h)"
      using h' c2 clk3 by (simp add: save_session_self)
    have b: "\<forall>k a. k \<noteq> S \<and> sessions h k = Some a
                    \<and> (case last_used a of None \<Rightarrow> 0 | Some u \<Rightarrow> u) < clock_msec h - SESSION_EXPIRE_MS
                    \<longrightarrow> sessions h' k = None"
    proof (intro allI impI)
      fix k a
      assume k: "k \<noteq> S \<and> sessions h k = Some a
                    \<and> (case last_used a of None \<Rightarrow> 0 | Some u \<Rightarrow> u) < clock_msec h - SESSION_EXPIRE_MS"
      from check_auth_params_others [OF 1, of k] k
      have "sessions h2 k = Some a \<or> sessions h2 k = None" by auto
      with r2 k have "sessions h3 k = Some a \<or> sessions h3 k = None" by auto
      with k clk3 show "sessions h' k = None"
        unfolding h' by (auto simp: save_session_other)
    qed
    from True res a b show ?thesis by simp
  next
    case False
    note st = check_auth_stage_falsy [OF ty chk3 out False, of S sess2]
    from run tr 1 2 st
    have res: "\<exists>authed r p. res = Inr (authed, r, p, S)" and h': "h' = h3"
      by (auto simp: check_auth_named_session [OF auth sid ne tbl] Let_def split: if_splits)
    with False t3 c2 show ?thesis by simp
  qed
qed

subsection \<open>Tokens and evaluation on the samples\<close>

lemma fold_add_first_party_caveat:
  "fold add_first_party_caveat cs m = m\<lparr>caveats := caveats m @ cs\<rparr>"
  by (induction cs arbitrary: m) (simp_all add: add_first_party_caveat_def)

lemma str_of_int_example: "str_of_int 3601000 = ''3601000''"
  by (simp add: str_of_int_def)

lemma validate_login_token_uncaught:
  assumes "deserialize tok = Inl e" and "e \<noteq> MacaroonException" and "e \<noteq> TypeError" and "e \<noteq> ValueError"
  shows "validate_short_term_login_token_and_get_user_id deserialize get_uid validate tok = Inl e"
  using assms by (simp add: validate_short_term_login_token_and_get_user_id_def)

lemma validate_login_token_caught_only:
  assumes d: "\<And>e. deserialize tok = Inl e \<Longrightarrow>
                e = MacaroonException \<or> e = TypeError \<or> e = ValueError
                \<or> (\<exists>msg. e = AuthError 401 msg UNKNOWN_TOKEN)"
      and g: "\<And>m e. get_uid m = Inl e \<Longrightarrow>
                e = MacaroonException \<or> e = TypeError \<or> e = ValueError
                \<or> (\<exists>msg. e = AuthError 401 msg UNKNOWN_TOKEN)"
      and v: "\<And>m uid e. validate m ''login'' True uid = Inl e \<Longrightarrow>
                e = MacaroonException \<or> e = TypeError \<or> e = ValueError
                \<or> (\<exists>msg. e = AuthError 401 msg UNKNOWN_TOKEN)"
  shows "(\<exists>m uid. deserialize tok = Inr m \<and> get_uid m = Inr uid
            \<and> validate m ''login'' True uid = Inr ()
            \<and> validate_short_term_login_token_and_get_user_id deserialize get_uid validate tok = Inr uid)
         \<or> (\<exists>msg. validate_short_term_login_token_and_get_user_id deserialize get_uid validate tok
                     = Inl (AuthError 401 msg UNKNOWN_TOKEN))"
proof (cases "deserialize tok")
  case (Inl e)
  with d [OF Inl] show ?thesis
    by (auto simp: validate_short_term_login_token_and_get_user_id_def)
next
  case m: (Inr m)
  show ?thesis
  proof (cases "get_uid m")
    case (Inl e)
    with g [OF Inl] m show ?thesis
      by (auto simp: validate_short_term_login_token_and_get_user_id_def)
  next
    case u: (Inr uid)
    show ?thesis
    proof (cases "validate m ''login'' True uid")
      case (Inl e)
      with v [OF Inl] m u show ?thesis
        by (auto simp: validate_short_term_login_token_and_get_user_id_def)
    next
      case (Inr x)
      with m u show ?thesis
        by (simp add: validate_short_term_login_token_and_get_user_id_def)
    qed
  qed
qed

lemmas sample_defs =
  sample_handler_def sample_auth_def new_session_def check_auth_def get_session_info_def
  create_session_def check_auth_params_def ensure_creds_def check_auth_stage_def creds_of_def
  save_session_def prune_sessions_def SESSION_EXPIRE_MS_def auth_dict_for_flows_def
  get_params_recaptcha_def add_oob_auth_def Let_def

subsection \<open>Flow completion\<close>

text \<open>
  C1 (amended). A call of \<^verbatim>\<open>check_auth\<close> that presents a non-empty auth block ends
  as soon as one of the random draws is an unused id, and when it returns, it reports
  completion exactly when some flow has every stage among the keys of the credentials the
  session then holds, whatever the order in which they were earned; with completion it
  returns those credentials.
\<close>

theorem check_auth_completion_iff:
  assumes auth: "map_of cd ''auth'' = Some authdict" and tr: "truthy authdict"
  shows "((\<exists>r\<in>set (random_strings h). sessions h r = None) \<longrightarrow> check_auth flows cd ip h \<noteq> None)
         \<and> (\<forall>authed r p s h'.
               check_auth flows cd ip h = Some (Inr (authed, r, p, s), h') \<longrightarrow>
               (\<exists>sess C. sessions h' s = Some sess \<and> creds sess = Some C
                   \<and> authed = (\<exists>f\<in>set flows. set f \<subseteq> fst ` set C)
                   \<and> (authed \<longrightarrow> r = C)))"
  using check_auth_enough [of h flows cd ip] check_auth_completion_returned [OF _ auth tr]
  by blast

theorem check_auth_completion_iff_witness:
  "map_of [(''auth'', sample_auth ''m.login.dummy'')] ''auth'' = Some (sample_auth ''m.login.dummy'')
   \<and> truthy (sample_auth ''m.login.dummy'')
   \<and> fst (the (check_auth [[''m.login.dummy'']] [(''auth'', sample_auth ''m.login.dummy'')]
                  ''ip'' sample_handler))
       = Inr (True, [(''m.login.dummy'', PBool True)], [], ''live'')
   \<and> creds (the (sessions (snd (the (check_auth [[''m.login.dummy'']]
                  [(''auth'', sample_auth ''m.login.dummy'')] ''ip'' sample_handler))) ''live''))
       = Some [(''m.login.dummy'', PBool True)]"
proof -
  define out where
    "out = check_auth [[''m.login.dummy'']] [(''auth'', sample_auth ''m.login.dummy'')] ''ip'' sample_handler"
  have a: "map_of [(''auth'', sample_auth ''m.login.dummy'')] ''auth'' = Some (sample_auth ''m.login.dummy'')"
    by simp
  have t: "truthy (sample_auth ''m.login.dummy'')" by (simp add: sample_auth_def)
  have ev: "check_auth [[''m.login.dummy'']] [(''auth'', sample_auth ''m.login.dummy'')] ''ip'' sample_handler
              = Some (Inr (True, [(''m.login.dummy'', PBool True)], [], ''live''), snd (the out))"
    unfolding out_def by (simp add: sample_defs)
  have val: "fst (the out) = Inr (True, [(''m.login.dummy'', PBool True)], [], ''live'')"
    unfolding out_def by (simp add: sample_defs)
  from check_auth_completion_iff [OF a t, of sample_handler "[[''m.login.dummy'']]" "''ip''"] ev
  have "creds (the (sessions (snd (the out)) ''live'')) = Some [(''m.login.dummy'', PBool True)]"
    by fastforce
  with a t val show ?thesis
    unfolding out_def by simp
qed

theorem check_auth_completion_counterexample:
  "flow_completed [[''m.login.dummy'']] (creds_of (the (sessions sample_handler ''live'')))
   \<and> check_auth [[''m.login.dummy'']] [(''auth'', sample_auth ''m.login.password'')] ''ip'' sample_handler
       = Some (Inl (LoginError 403 [] FORBIDDEN), sample_handler)
   \<and> flow_completed [[]] []
   \<and> fst (the (check_auth [[]] [] ''ip'' sample_handler))
       = Inr (False, [(''session'', PStr ''fresh''), (''flows'', PList [PDict [(''stages'', PList [])]]),
                      (''params'', PDict [])], [], ''fresh'')"
  by (simp add: sample_defs)

subsection \<open>Credentials survive a failed stage\<close>

text \<open>
  C2. A call of \<^verbatim>\<open>check_auth\<close> that names an existing session ends and leaves that
  session in the table. When it ends in an error (in particular one raised by the invoked
  checker) the session's credentials are what they were before the call. The credentials
  change only when the checker of the presented stage returned a truthy result. And when
  the checker of the presented stage returns, the call returns: a truthy result is stored
  in the session's \<^verbatim>\<open>creds\<close> under the stage's type and the session is saved (touched
  at the clock reading, and the other sessions that have expired are swept), while a falsy
  result leaves the credentials as they were. A session without a \<^verbatim>\<open>creds\<close> entry
  holds no credentials.
\<close>

theorem check_auth_preserves_creds:
  assumes auth: "map_of cd ''auth'' = Some authdict"
      and sid: "py_getitem authdict ''session'' = Inr (PStr S)" and ne: "S \<noteq> []"
      and tbl: "sessions h S = Some d"
  shows "\<exists>res h' d'. check_auth flows cd ip h = Some (res, h') \<and> sessions h' S = Some d'
           \<and> ((\<exists>e. res = Inl e) \<longrightarrow> creds_of d' = creds_of d)
           \<and> (creds_of d' \<noteq> creds_of d \<longrightarrow>
                (\<exists>t chk result. py_getitem authdict ''type'' = Inr (PStr t)
                   \<and> checkers h t = Some chk \<and> chk authdict ip = Inr result \<and> truthy result
                   \<and> creds_of d' = AList.update t result (creds_of d)
                   \<and> last_used d' = Some (clock_msec h)))
           \<and> (\<forall>t chk result. py_getitem authdict ''type'' = Inr (PStr t)
                   \<and> checkers h t = Some chk \<and> chk authdict ip = Inr result \<longrightarrow>
                (\<exists>authed r p. res = Inr (authed, r, p, S))
                \<and> (if truthy result
                    then creds d' = Some (AList.update t result (creds_of d))
                         \<and> last_used d' = Some (clock_msec h)
                         \<and> (\<forall>k a. k \<noteq> S \<and> sessions h k = Some a
                               \<and> (case last_used a of None \<Rightarrow> 0 | Some u \<Rightarrow> u)
                                     < clock_msec h - 48 * 60 * 60 * 1000
                               \<longrightarrow> sessions h' k = None)
                    else creds_of d' = creds_of d))"
proof -
  from check_auth_named_session_returns [OF auth sid ne tbl]
  obtain res h' where run: "check_auth flows cd ip h = Some (res, h')" by fastforce
  from check_auth_preserves_creds_run [OF auth sid ne tbl run]
  obtain d' where d': "sessions h' S = Some d'"
    "(\<exists>e. res = Inl e) \<longrightarrow> creds_of d' = creds_of d"
    "creds_of d' \<noteq> creds_of d \<longrightarrow>
                (\<exists>t chk result. py_getitem authdict ''type'' = Inr (PStr t)
                   \<and> checkers h t = Some chk \<and> chk authdict ip = Inr result \<and> truthy result
                   \<and> creds_of d' = AList.update t result (creds_of d)
                   \<and> last_used d' = Some (clock_msec h))"
    by blast
  have pos: "\<forall>t chk result. py_getitem authdict ''type'' = Inr (PStr t)
                   \<and> checkers h t = Some chk \<and> chk authdict ip = Inr result \<longrightarrow>
                (\<exists>authed r p. res = Inr (authed, r, p, S))
                \<and> (if truthy result
                    then creds d' = Some (AList.update t result (creds_of d))
                         \<and> last_used d' = Some (clock_msec h)
                         \<and> (\<forall>k a. k \<noteq> S \<and> sessions h k = Some a
                               \<and> (case last_used a of None \<Rightarrow> 0 | Some u \<Rightarrow> u)
                                     < clock_msec h - 48 * 60 * 60 * 1000
                               \<longrightarrow> sessions h' k = None)
                    else creds_of d' = creds_of d)"
  proof (intro allI impI)
    fix t chk result
    assume a: "py_getitem authdict ''type'' = Inr (PStr t)
                   \<and> checkers h t = Some chk \<and> chk authdict ip = Inr result"
    then have ty: "py_getitem authdict ''type'' = Inr (PStr t)" and chk: "checkers h t = Some chk"
      and out: "chk authdict ip = Inr result" by simp_all
    from check_auth_stored_and_saved [OF auth sid ne tbl ty chk out run] d'(1)
    show "(\<exists>authed r p. res = Inr (authed, r, p, S))
                \<and> (if truthy result
                    then creds d' = Some (AList.update t result (creds_of d))
                         \<and> last_used d' = Some (clock_msec h)
                         \<and> (\<forall>k a. k \<noteq> S \<and> sessions h k = Some a
                               \<and> (case last_used a of None \<Rightarrow> 0 | Some u \<Rightarrow> u)
                                     < clock_msec h - 48 * 60 * 60 * 1000
                               \<longrightarrow> sessions h' k = None)
                    else creds_of d' = creds_of d)"
      by (cases "truthy result") (auto simp: SESSION_EXPIRE_MS_def)
  qed
  from run d' pos show ?thesis by blast
qed

theorem check_auth_preserves_creds_witness:
  "map_of [(''auth'', sample_auth ''m.login.password'')] ''auth'' = Some (sample_auth ''m.login.password'')
   \<and> py_getitem (sample_auth ''m.login.password'') ''session'' = Inr (PStr ''live'')
   \<and> check_auth [[''m.login.dummy'']] [(''auth'', sample_auth ''m.login.password'')] ''ip'' sample_handler
       = Some (Inl (LoginError 403 [] FORBIDDEN), sample_handler)
   \<and> creds_of (the (sessions sample_handler ''live'')) = [(''m.login.dummy'', PBool True)]
   \<and> creds (the (sessions (snd (the (check_auth [[''m.login.password'']]
                [(''auth'', sample_auth ''m.login.dummy'')] ''ip'' sample_handler))) ''live''))
       = Some [(''m.login.dummy'', PBool True)]
   \<and> last_used (the (sessions (snd (the (check_auth [[''m.login.password'']]
                [(''auth'', sample_auth ''m.login.dummy'')] ''ip'' sample_handler))) ''live''))
       = Some 200000000
   \<and> sessions (snd (the (check_auth [[''m.login.password'']]
                [(''auth'', sample_auth ''m.login.dummy'')] ''ip'' sample_handler))) ''old'' = None"
proof -
  have a: "map_of [(''auth'', sample_auth ''m.login.password'')] ''auth'' = Some (sample_auth ''m.login.password'')"
    by simp
  have s: "py_getitem (sample_auth ''m.login.password'') ''session'' = Inr (PStr ''live'')"
    by (simp add: sample_auth_def)
  have n: "''live'' \<noteq> []" by simp
  have t: "sessions sample_handler ''live''
             = Some (new_session\<lparr>creds := Some [(''m.login.dummy'', PBool True)],
                                 last_used := Some 27200000\<rparr>)"
    by (simp add: sample_handler_def)
  have ev: "check_auth [[''m.login.dummy'']] [(''auth'', sample_auth ''m.login.password'')] ''ip'' sample_handler
       = Some (Inl (LoginError 403 [] FORBIDDEN), sample_handler)"
    by (simp add: sample_defs)
  from check_auth_preserves_creds [OF a s n t, of "[[''m.login.dummy'']]" "''ip''"] a s t ev
  have 1: "creds_of (the (sessions sample_handler ''live'')) = [(''m.login.dummy'', PBool True)]"
    by (auto simp: creds_of_def)
  let ?out = "check_auth [[''m.login.password'']] [(''auth'', sample_auth ''m.login.dummy'')] ''ip'' sample_handler"
  have a2: "map_of [(''auth'', sample_auth ''m.login.dummy'')] ''auth'' = Some (sample_auth ''m.login.dummy'')"
    by simp
  have s2: "py_getitem (sample_auth ''m.login.dummy'') ''session'' = Inr (PStr ''live'')"
    by (simp add: sample_auth_def)
  have ty: "py_getitem (sample_auth ''m.login.dummy'') ''type'' = Inr (PStr ''m.login.dummy'')"
    by (simp add: sample_auth_def)
  have ck: "checkers sample_handler ''m.login.dummy'' = Some (\<lambda>authdict clientip. Inr (PBool True))"
    by (simp add: sample_handler_def)
  have old: "sessions sample_handler ''old'' = Some (new_session\<lparr>last_used := Some 1000\<rparr>)"
    "clock_msec sample_handler = 200000000"
    by (simp_all add: sample_handler_def)
  from check_auth_preserves_creds [OF a2 s2 n t, of "[[''m.login.password'']]" "''ip''"]
  obtain res h' d' where run: "?out = Some (res, h')" and d': "sessions h' ''live'' = Some d'"
    and pos: "\<forall>t chk result. py_getitem (sample_auth ''m.login.dummy'') ''type'' = Inr (PStr t)
                   \<and> checkers sample_handler t = Some chk
                   \<and> chk (sample_auth ''m.login.dummy'') ''ip'' = Inr result \<longrightarrow>
                (\<exists>authed r p. res = Inr (authed, r, p, ''live''))
                \<and> (if truthy result
                    then creds d' = Some (AList.update t result
                           (creds_of (new_session\<lparr>creds := Some [(''m.login.dummy'', PBool True)],
                                 last_used := Some 27200000\<rparr>)))
                         \<and> last_used d' = Some (clock_msec sample_handler)
                         \<and> (\<forall>k a. k \<noteq> ''live'' \<and> sessions sample_handler k = Some a
                               \<and> (case last_used a of None \<Rightarrow> 0 | Some u \<Rightarrow> u)
                                     < clock_msec sample_handler - 48 * 60 * 60 * 1000
                               \<longrightarrow> sessions h' k = None)
                    else creds_of d' = creds_of (new_session\<lparr>creds := Some [(''m.login.dummy'', PBool True)],
                                 last_used := Some 27200000\<rparr>))"
    by (elim exE conjE) (rule that, assumption+)
  from pos ty ck
  have p: "creds d' = Some (AList.update ''m.login.dummy'' (PBool True)
                           (creds_of (new_session\<lparr>creds := Some [(''m.login.dummy'', PBool True)],
                                 last_used := Some 27200000\<rparr>)))"
    "last_used d' = Some (clock_msec sample_handler)"
    "\<forall>k a. k \<noteq> ''live'' \<and> sessions sample_handler k = Some a
                               \<and> (case last_used a of None \<Rightarrow> 0 | Some u \<Rightarrow> u)
                                     < clock_msec sample_handler - 48 * 60 * 60 * 1000
                               \<longrightarrow> sessions h' k = None"
    by fastforce+
  from p(3) old have o: "sessions h' ''old'' = None"
    by (auto simp: new_session_def)
  from run have h': "snd (the ?out) = h'" by simp
  from p(1,2) o d' old(2) have 2: "creds (the (sessions (snd (the ?out)) ''live'')) = Some [(''m.login.dummy'', PBool True)]"
    "last_used (the (sessions (snd (the ?out)) ''live'')) = Some 200000000"
    "sessions (snd (the ?out)) ''old'' = None"
    unfolding h' by (simp_all add: creds_of_def new_session_def)
  from a s ev 1 2 show ?thesis
    by simp
qed

subsection \<open>Expiry of saved sessions\<close>

text \<open>
  C3. Saving a session B when the clock reads \<open>now\<close> removes another session A that carries
  a \<^verbatim>\<open>last_used\<close> timestamp exactly when that timestamp is more than 48 hours old,
  \<open>last_used < now - 48h\<close>; otherwise A stays in the table as it was.
\<close>

theorem save_session_prunes_other_iff:
  assumes "A \<noteq> B" and "sessions h A = Some a" and "last_used a = Some t"
  shows "(sessions (save_session (B, b) h) A = None) = (t < clock_msec h - 48 * 60 * 60 * 1000)
         \<and> (\<not> t < clock_msec h - 48 * 60 * 60 * 1000
              \<longrightarrow> sessions (save_session (B, b) h) A = Some a)"
  using assms by (simp add: save_session_other SESSION_EXPIRE_MS_def)

theorem save_session_prunes_other_iff_witness:
  "''old'' \<noteq> ''fresh''
   \<and> sessions sample_handler ''old'' = Some (new_session\<lparr>last_used := Some 1000\<rparr>)
   \<and> last_used (new_session\<lparr>last_used := Some 1000\<rparr>) = Some 1000
   \<and> (1000 < clock_msec sample_handler - 48 * 60 * 60 * 1000)
   \<and> sessions (save_session (''fresh'', new_session) sample_handler) ''old'' = None"
proof -
  have a: "''old'' \<noteq> ''fresh''" by simp
  have b: "sessions sample_handler ''old'' = Some (new_session\<lparr>last_used := Some 1000\<rparr>)"
    by (simp add: sample_handler_def)
  have c: "last_used (new_session\<lparr>last_used := Some 1000\<rparr>) = Some 1000" by simp
  have d: "(1000::int) < clock_msec sample_handler - 48 * 60 * 60 * 1000"
    by (simp add: sample_handler_def)
  from save_session_prunes_other_iff [OF a b c, of new_session] a b c d show ?thesis
    by simp
qed

subsection \<open>Caveat order of the tokens\<close>

text \<open>
  C4. Every generator serialises a macaroon whose first-party caveats are, in this order:
  \<open>gen = 1\<close>, \<open>user_id = <id>\<close>, the type caveat, then the expiry \<open>time < now + lifetime\<close>
  (access, 1 hour unless given; login, 2 minutes unless given) or the nonce (refresh), then
  the extra caveats (access only). The delete-pusher token ends with its type caveat.
\<close>

theorem generators_caveat_order:
  "generate_access_token serialize cfg now user_id extra_caveats duration_in_ms
     = serialize \<lparr>location = server_name cfg, ident = ''key'', key = macaroon_secret_key cfg,
          caveats = [''gen = 1'', ''user_id = '' @ user_id, ''type = access'',
                     ''time < '' @ str_of_int (now + (case duration_in_ms of None \<Rightarrow> 3600000 | Some d \<Rightarrow> d))]
                    @ (case extra_caveats of None \<Rightarrow> [] | Some cs \<Rightarrow> cs)\<rparr>
   \<and> generate_refresh_token serialize cfg nonce user_id
     = serialize \<lparr>location = server_name cfg, ident = ''key'', key = macaroon_secret_key cfg,
          caveats = [''gen = 1'', ''user_id = '' @ user_id, ''type = refresh'', ''nonce = '' @ nonce]\<rparr>
   \<and> generate_short_term_login_token serialize cfg now user_id duration_in_ms
     = serialize \<lparr>location = server_name cfg, ident = ''key'', key = macaroon_secret_key cfg,
          caveats = [''gen = 1'', ''user_id = '' @ user_id, ''type = login'',
                     ''time < '' @ str_of_int (now + (case duration_in_ms of None \<Rightarrow> 120000 | Some d \<Rightarrow> d))]\<rparr>
   \<and> generate_delete_pusher_token serialize cfg user_id
     = serialize \<lparr>location = server_name cfg, ident = ''key'', key = macaroon_secret_key cfg,
          caveats = [''gen = 1'', ''user_id = '' @ user_id, ''type = delete_pusher'']\<rparr>"
  by (simp add: generate_access_token_def generate_refresh_token_def
        generate_short_term_login_token_def generate_delete_pusher_token_def
        generate_base_macaroon_def add_first_party_caveat_def fold_add_first_party_caveat
        Let_def split: option.split)

theorem generators_caveat_order_witness:
  "generate_access_token (\<lambda>m. concat (map (\<lambda>c. c @ ''; '') (caveats m))) sample_config 1000
       ''@a:x'' (Some [''guest = true'']) None
     = ''gen = 1; user_id = @a:x; type = access; time < 3601000; guest = true; ''
   \<and> generate_short_term_login_token (\<lambda>m. concat (map (\<lambda>c. c @ ''; '') (caveats m)))
       sample_config 1000 ''@a:x'' None
     = ''gen = 1; user_id = @a:x; type = login; time < 121000; ''"
  using generators_caveat_order [of "\<lambda>m. concat (map (\<lambda>c. c @ ''; '') (caveats m))"
          sample_config 1000 "''@a:x''" "Some [''guest = true'']" None]
  by (simp add: str_of_int_def)

subsection \<open>Local password verification\<close>

text \<open>
  C5 (amended). Local password verification: no case-insensitive match is a forbidden
  error (403); with several matches the exact id is taken when it is among them and the
  error is forbidden otherwise; a single match gives the stored id. For the resolved id, an
  absent or empty hash and a hash that differs from what \<^verbatim>\<open>bcrypt.hashpw\<close> returns
  are forbidden errors, a hash equal to it returns the resolved (canonical) id, and an
  error that \<^verbatim>\<open>bcrypt.hashpw\<close> raises on the stored hash leaves the function as it
  is, not as a forbidden error.
\<close>

theorem check_local_password_outcomes:
  "(store user_id = Inr []
      \<longrightarrow> check_local_password store hashpw cfg user_id password = Inl (LoginError 403 [] FORBIDDEN))
   \<and> (store user_id = Inr user_infos \<and> py_len user_infos > 1 \<and> user_id \<notin> fst ` set user_infos
      \<longrightarrow> check_local_password store hashpw cfg user_id password = Inl (LoginError 403 [] FORBIDDEN))
   \<and> (store user_id = Inr user_infos \<and> py_len user_infos > 1 \<and> map_of user_infos user_id = Some h
      \<longrightarrow> find_user_id_and_pwd_hash store user_id = Inr (user_id, h))
   \<and> (store user_id = Inr [(stored_id, h)]
      \<longrightarrow> find_user_id_and_pwd_hash store user_id = Inr (stored_id, h))
   \<and> (find_user_id_and_pwd_hash store user_id = Inr (canonical, stored)
      \<longrightarrow> ((stored = None \<or> stored = Some [])
            \<longrightarrow> check_local_password store hashpw cfg user_id password
                  = Inl (LoginError 403 [] FORBIDDEN))
        \<and> (\<forall>sh hashed. stored = Some sh \<and> sh \<noteq> []
                \<and> hashpw (password @ password_pepper cfg) sh = Inr hashed
            \<longrightarrow> check_local_password store hashpw cfg user_id password
                  = (if hashed = sh then Inr canonical else Inl (LoginError 403 [] FORBIDDEN)))
        \<and> (\<forall>sh e. stored = Some sh \<and> sh \<noteq> []
                \<and> hashpw (password @ password_pepper cfg) sh = Inl e
            \<longrightarrow> check_local_password store hashpw cfg user_id password = Inl e))"
proof (intro conjI impI allI)
  assume "store user_id = Inr []"
  then show "check_local_password store hashpw cfg user_id password = Inl (LoginError 403 [] FORBIDDEN)"
    by (simp add: check_local_password_def find_user_id_and_pwd_hash_def)
next
  assume a: "store user_id = Inr user_infos \<and> py_len user_infos > 1 \<and> user_id \<notin> fst ` set user_infos"
  then have "map_of user_infos user_id = None" by (simp add: map_of_eq_None_iff)
  with a show "check_local_password store hashpw cfg user_id password = Inl (LoginError 403 [] FORBIDDEN)"
    by (simp add: check_local_password_def find_user_id_and_pwd_hash_def)
next
  assume a: "store user_id = Inr user_infos \<and> py_len user_infos > 1 \<and> map_of user_infos user_id = Some h"
  then have "user_infos \<noteq> []" by auto
  with a show "find_user_id_and_pwd_hash store user_id = Inr (user_id, h)"
    by (simp add: find_user_id_and_pwd_hash_def)
next
  assume "store user_id = Inr [(stored_id, h)]"
  then show "find_user_id_and_pwd_hash store user_id = Inr (stored_id, h)"
    by (simp add: find_user_id_and_pwd_hash_def py_len_def)
next
  assume "find_user_id_and_pwd_hash store user_id = Inr (canonical, stored)"
    and "stored = None \<or> stored = Some []"
  then show "check_local_password store hashpw cfg user_id password = Inl (LoginError 403 [] FORBIDDEN)"
    by (auto simp: check_local_password_def validate_hash_def)
next
  fix sh hashed
  assume "find_user_id_and_pwd_hash store user_id = Inr (canonical, stored)"
    and "stored = Some sh \<and> sh \<noteq> [] \<and> hashpw (password @ password_pepper cfg) sh = Inr hashed"
  then show "check_local_password store hashpw cfg user_id password
                  = (if hashed = sh then Inr canonical else Inl (LoginError 403 [] FORBIDDEN))"
    by (simp add: check_local_password_def validate_hash_def)
next
  fix sh e
  assume "find_user_id_and_pwd_hash store user_id = Inr (canonical, stored)"
    and "stored = Some sh \<and> sh \<noteq> [] \<and> hashpw (password @ password_pepper cfg) sh = Inl e"
  then show "check_local_password store hashpw cfg user_id password = Inl e"
    by (simp add: check_local_password_def validate_hash_def)
qed

theorem check_local_password_outcomes_witness:
  "check_local_password sample_store sample_hashpw sample_config ''@carol:x'' ''correct''
     = Inl (LoginError 403 [] FORBIDDEN)
   \<and> check_local_password sample_store sample_hashpw sample_config ''@BOB:x'' ''correct''
     = Inl (LoginError 403 [] FORBIDDEN)
   \<and> find_user_id_and_pwd_hash sample_store ''@bob:x'' = Inr (''@bob:x'', Some ''$2a$12$reppeptcerroc'')
   \<and> find_user_id_and_pwd_hash sample_store ''@Amy:x'' = Inr (''@amy:x'', Some ''$2a$12$reppeptcerroc'')
   \<and> check_local_password sample_store sample_hashpw sample_config ''@Bob:x'' ''correct''
     = Inl (LoginError 403 [] FORBIDDEN)
   \<and> check_local_password sample_store sample_hashpw sample_config ''@Amy:x'' ''correct'' = Inr ''@amy:x''
   \<and> check_local_password sample_store sample_hashpw sample_config ''@Amy:x'' ''wrong''
     = Inl (LoginError 403 [] FORBIDDEN)
   \<and> check_local_password sample_store sample_hashpw sample_config ''@eve:x'' ''correct''
     = Inl ValueError"
proof -
  let ?bobs = "[(''@bob:x'', Some ''$2a$12$reppeptcerroc''), (''@Bob:x'', None)]"
  have 1: "check_local_password sample_store sample_hashpw sample_config ''@carol:x'' ''correct''
     = Inl (LoginError 403 [] FORBIDDEN)"
    using check_local_password_outcomes [where store = sample_store and user_id = "''@carol:x''" and hashpw = sample_hashpw
        and cfg = sample_config and password = "''correct''"]
    by (simp add: sample_store_def)
  have 2: "check_local_password sample_store sample_hashpw sample_config ''@BOB:x'' ''correct''
     = Inl (LoginError 403 [] FORBIDDEN)"
    using check_local_password_outcomes [where store = sample_store and user_id = "''@BOB:x''" and hashpw = sample_hashpw
        and cfg = sample_config and password = "''correct''" and user_infos = "?bobs"]
    by (simp add: sample_store_def py_len_def)
  have 3: "find_user_id_and_pwd_hash sample_store ''@bob:x'' = Inr (''@bob:x'', Some ''$2a$12$reppeptcerroc'')"
    using check_local_password_outcomes [where store = sample_store and user_id = "''@bob:x''" and hashpw = sample_hashpw
        and cfg = sample_config and password = "''correct''" and user_infos = "?bobs"
        and h = "Some ''$2a$12$reppeptcerroc''"]
    by (simp add: sample_store_def py_len_def)
  have 4: "find_user_id_and_pwd_hash sample_store ''@Amy:x'' = Inr (''@amy:x'', Some ''$2a$12$reppeptcerroc'')"
    using check_local_password_outcomes [where store = sample_store and user_id = "''@Amy:x''" and hashpw = sample_hashpw
        and cfg = sample_config and password = "''correct''" and stored_id = "''@amy:x''"
        and h = "Some ''$2a$12$reppeptcerroc''"]
    by (simp add: sample_store_def)
  have b: "find_user_id_and_pwd_hash sample_store ''@Bob:x'' = Inr (''@Bob:x'', None)"
    by (simp add: find_user_id_and_pwd_hash_def sample_store_def py_len_def)
  have 5: "check_local_password sample_store sample_hashpw sample_config ''@Bob:x'' ''correct''
     = Inl (LoginError 403 [] FORBIDDEN)"
    using check_local_password_outcomes [where store = sample_store and user_id = "''@Bob:x''" and hashpw = sample_hashpw
        and cfg = sample_config and password = "''correct''" and canonical = "''@Bob:x''" and stored = None] b
    by simp
  have h1: "sample_hashpw (''correct'' @ password_pepper sample_config) ''$2a$12$reppeptcerroc''
              = Inr ''$2a$12$reppeptcerroc''"
    by (simp add: sample_hashpw_def sample_config_def)
  have h2: "sample_hashpw (''wrong'' @ password_pepper sample_config) ''$2a$12$reppeptcerroc''
              = Inr ''$2a$12$reppepgnorw''"
    by (simp add: sample_hashpw_def sample_config_def)
  have 6: "check_local_password sample_store sample_hashpw sample_config ''@Amy:x'' ''correct'' = Inr ''@amy:x''"
    using check_local_password_outcomes [where store = sample_store and user_id = "''@Amy:x''" and hashpw = sample_hashpw
        and cfg = sample_config and password = "''correct''" and canonical = "''@amy:x''"
        and stored = "Some ''$2a$12$reppeptcerroc''"] 4 h1
    by simp
  have 7: "check_local_password sample_store sample_hashpw sample_config ''@Amy:x'' ''wrong''
     = Inl (LoginError 403 [] FORBIDDEN)"
    using check_local_password_outcomes [where store = sample_store and user_id = "''@Amy:x''" and hashpw = sample_hashpw
        and cfg = sample_config and password = "''wrong''" and canonical = "''@amy:x''"
        and stored = "Some ''$2a$12$reppeptcerroc''"] 4 h2
    by simp
  have e: "find_user_id_and_pwd_hash sample_store ''@eve:x'' = Inr (''@eve:x'', Some ''not-a-bcrypt-hash'')"
    by (simp add: find_user_id_and_pwd_hash_def sample_store_def py_len_def)
  have h3: "sample_hashpw (''correct'' @ password_pepper sample_config) ''not-a-bcrypt-hash''
              = Inl ValueError"
    by (simp add: sample_hashpw_def)
  have 8: "check_local_password sample_store sample_hashpw sample_config ''@eve:x'' ''correct''
     = Inl ValueError"
    using check_local_password_outcomes [where store = sample_store and user_id = "''@eve:x''"
        and hashpw = sample_hashpw and cfg = sample_config and password = "''correct''"
        and canonical = "''@eve:x''" and stored = "Some ''not-a-bcrypt-hash''"] e h3
    by simp
  from 1 2 3 4 5 6 7 8 show ?thesis by simp
qed

theorem check_local_password_counterexample:
  "find_user_id_and_pwd_hash sample_store ''@eve:x'' = Inr (''@eve:x'', Some ''not-a-bcrypt-hash'')
   \<and> check_local_password sample_store sample_hashpw sample_config ''@eve:x'' ''correct''
     = Inl ValueError
   \<and> ValueError \<noteq> LoginError 403 [] FORBIDDEN"
  by (simp add: check_local_password_def find_user_id_and_pwd_hash_def validate_hash_def
        sample_store_def sample_hashpw_def py_len_def)

subsection \<open>validate\_hash\<close>

text \<open>
  C6 (amended). \<^verbatim>\<open>validate_hash\<close> returns false at once for an absent or empty stored
  hash. Otherwise it returns true exactly when \<^verbatim>\<open>bcrypt.hashpw\<close>, on the peppered
  password and the stored hash, returns the stored hash, false when it returns another
  string, and it raises exactly what \<^verbatim>\<open>bcrypt.hashpw\<close> raises: it has no handler.
\<close>

theorem validate_hash_outcomes:
  "((stored = None \<or> stored = Some []) \<longrightarrow> validate_hash hashpw cfg password stored = Inr False)
   \<and> (validate_hash hashpw cfg password stored = Inr True)
       = (\<exists>sh. stored = Some sh \<and> sh \<noteq> [] \<and> hashpw (password @ password_pepper cfg) sh = Inr sh)
   \<and> (validate_hash hashpw cfg password stored = Inl e)
       = (\<exists>sh. stored = Some sh \<and> sh \<noteq> [] \<and> hashpw (password @ password_pepper cfg) sh = Inl e)"
  by (auto simp: validate_hash_def split: option.splits sum.splits)

theorem validate_hash_outcomes_witness:
  "validate_hash sample_hashpw sample_config ''correct'' None = Inr False
   \<and> validate_hash sample_hashpw sample_config ''correct'' (Some []) = Inr False
   \<and> validate_hash sample_hashpw sample_config ''correct'' (Some ''$2a$12$reppeptcerroc'') = Inr True
   \<and> validate_hash sample_hashpw sample_config ''wrong'' (Some ''$2a$12$reppeptcerroc'') = Inr False"
proof -
  have 1: "validate_hash sample_hashpw sample_config ''correct'' None = Inr False"
    using validate_hash_outcomes [of None sample_hashpw sample_config "''correct''"] by simp
  have 2: "validate_hash sample_hashpw sample_config ''correct'' (Some []) = Inr False"
    using validate_hash_outcomes [of "Some []" sample_hashpw sample_config "''correct''"] by simp
  have "sample_hashpw (''correct'' @ password_pepper sample_config) ''$2a$12$reppeptcerroc''
          = Inr ''$2a$12$reppeptcerroc''"
    by (simp add: sample_hashpw_def sample_config_def)
  then have 3: "validate_hash sample_hashpw sample_config ''correct'' (Some ''$2a$12$reppeptcerroc'') = Inr True"
    using validate_hash_outcomes [of "Some ''$2a$12$reppeptcerroc''" sample_hashpw sample_config "''correct''"]
    by simp
  have 4: "validate_hash sample_hashpw sample_config ''wrong'' (Some ''$2a$12$reppeptcerroc'') = Inr False"
    by (simp add: validate_hash_def sample_hashpw_def sample_config_def)
  from 1 2 3 4 show ?thesis by simp
qed

theorem validate_hash_counterexample:
  "validate_hash sample_hashpw sample_config ''correct'' (Some ''not-a-bcrypt-hash'') = Inl ValueError"
  by (simp add: validate_hash_def sample_hashpw_def)

subsection \<open>Stored client parameters\<close>

text \<open>
  C7. A call of \<^verbatim>\<open>check_auth\<close> with non-empty parameters besides \<^verbatim>\<open>auth\<close> returns
  them as the working parameters and leaves them in the session. A later call that names
  that session, while the session still holds them, and carries nothing besides
  \<^verbatim>\<open>auth\<close> ends, and what it returns are the same parameters and the same session
  id, whatever else the handler's state has become.
\<close>

theorem check_auth_params_remembered:
  assumes first: "check_auth flows1 cd1 ip1 h = Some (Inr (authed1, r1, p1, S), h1)"
      and params: "AList.delete ''auth'' cd1 \<noteq> []"
      and ne: "S \<noteq> []"
      and live: "sessions later S = Some sess" "clientdict sess = Some (AList.delete ''auth'' cd1)"
      and auth2: "map_of cd2 ''auth'' = Some authdict2"
      and sid2: "py_getitem authdict2 ''session'' = Inr (PStr S)"
      and none2: "AList.delete ''auth'' cd2 = []"
  shows "p1 = AList.delete ''auth'' cd1
         \<and> (\<exists>sess1. sessions h1 S = Some sess1 \<and> clientdict sess1 = Some p1)
         \<and> (\<exists>res2 h2. check_auth flows2 cd2 ip2 later = Some (res2, h2)
               \<and> (\<forall>authed2 r2 p2 S2. res2 = Inr (authed2, r2, p2, S2) \<longrightarrow> p2 = p1 \<and> S2 = S))"
proof -
  from check_auth_session_after [OF first params]
  have a: "p1 = AList.delete ''auth'' cd1"
    "\<exists>sess1. sessions h1 S = Some sess1 \<and> clientdict sess1 = Some p1" by blast+
  from check_auth_named_session_returns [OF auth2 sid2 ne live(1)]
  obtain res2 h2 where run: "check_auth flows2 cd2 ip2 later = Some (res2, h2)" by fastforce
  have "\<forall>authed2 r2 p2 S2. res2 = Inr (authed2, r2, p2, S2) \<longrightarrow> p2 = p1 \<and> S2 = S"
    using check_auth_params_restored [OF first params ne live auth2 sid2 none2] run by blast
  with a run show ?thesis by blast
qed

theorem check_auth_params_remembered_witness:
  "fst (the (check_auth [[''m.login.dummy'']]
               [(''auth'', sample_auth ''m.login.dummy''), (''username'', PStr ''bob'')]
               ''ip'' sample_handler))
     = Inr (True, [(''m.login.dummy'', PBool True)], [(''username'', PStr ''bob'')], ''live'')
   \<and> fst (the (check_auth [[''m.login.dummy'']] [(''auth'', sample_auth ''m.login.dummy'')] ''ip''
               ((snd (the (check_auth [[''m.login.dummy'']]
                  [(''auth'', sample_auth ''m.login.dummy''), (''username'', PStr ''bob'')]
                  ''ip'' sample_handler)))\<lparr>clock_msec := 200000001\<rparr>)))
     = Inr (True, [(''m.login.dummy'', PBool True)], [(''username'', PStr ''bob'')], ''live'')"
proof -
  define cd1 where "cd1 = [(''auth'', sample_auth ''m.login.dummy''), (''username'', PStr ''bob'')]"
  define h1 where "h1 = snd (the (check_auth [[''m.login.dummy'']] cd1 ''ip'' sample_handler))"
  define h2 where "h2 = snd (the (check_auth [[''m.login.dummy'']] [(''auth'', sample_auth ''m.login.dummy'')]
                       ''ip'' (h1\<lparr>clock_msec := 200000001\<rparr>)))"
  define sess where "sess = the (sessions h1 ''live'')"
  have first: "check_auth [[''m.login.dummy'']] cd1 ''ip'' sample_handler
     = Some (Inr (True, [(''m.login.dummy'', PBool True)], [(''username'', PStr ''bob'')], ''live''), h1)"
    unfolding h1_def cd1_def by (simp add: sample_defs)
  have params: "AList.delete ''auth'' cd1 \<noteq> []" by (simp add: cd1_def)
  have ne: "''live'' \<noteq> []" by simp
  have "sessions h1 ''live'' \<noteq> None" "clientdict (the (sessions h1 ''live'')) = Some [(''username'', PStr ''bob'')]"
    unfolding h1_def cd1_def by (simp_all add: sample_defs)
  then have live: "sessions (h1\<lparr>clock_msec := 200000001\<rparr>) ''live'' = Some sess"
    "clientdict sess = Some (AList.delete ''auth'' cd1)"
    by (auto simp: sess_def cd1_def)
  have auth2: "map_of [(''auth'', sample_auth ''m.login.dummy'')] ''auth'' = Some (sample_auth ''m.login.dummy'')"
    by simp
  have sid2: "py_getitem (sample_auth ''m.login.dummy'') ''session'' = Inr (PStr ''live'')"
    by (simp add: sample_auth_def)
  have none2: "AList.delete ''auth'' [(''auth'', sample_auth ''m.login.dummy'')] = []" by simp
  have second: "check_auth [[''m.login.dummy'']] [(''auth'', sample_auth ''m.login.dummy'')] ''ip''
                  (h1\<lparr>clock_msec := 200000001\<rparr>)
     = Some (Inr (True, [(''m.login.dummy'', PBool True)], [(''username'', PStr ''bob'')], ''live''), h2)"
    unfolding h2_def h1_def cd1_def by (simp add: sample_defs)
  have v1: "fst (the (check_auth [[''m.login.dummy'']] cd1 ''ip'' sample_handler))
     = Inr (True, [(''m.login.dummy'', PBool True)], [(''username'', PStr ''bob'')], ''live'')"
    unfolding cd1_def by (simp add: sample_defs)
  have v2: "fst (the (check_auth [[''m.login.dummy'']] [(''auth'', sample_auth ''m.login.dummy'')] ''ip''
                  (h1\<lparr>clock_msec := 200000001\<rparr>)))
     = Inr (True, [(''m.login.dummy'', PBool True)], AList.delete ''auth'' cd1, ''live'')"
    using check_auth_params_remembered [OF first params ne live auth2 sid2 none2,
            of "[[''m.login.dummy'']]" "''ip''"] second
    by auto
  from v1 v2 show ?thesis
    unfolding h1_def cd1_def by simp
qed

subsection \<open>Short-term login tokens\<close>




subsection \<open>Out-of-band stage results\<close>

text \<open>
  C9. \<^verbatim>\<open>add_oob_auth\<close> raises the missing-parameter error (400) when the stage has no
  registered checker or the authdict has no \<^verbatim>\<open>session\<close> entry. When the authdict names
  an existing session and the checker returns, a truthy result is stored under the stage
  type in that session's credentials, the session is saved and the call returns true; a
  falsy result returns false, stores no credential, saves nothing and leaves every other
  session as it was.
\<close>

theorem add_oob_auth_outcomes:
  "(checkers h stagetype = None \<or> py_contains authdict ''session'' = Inr False
      \<longrightarrow> add_oob_auth stagetype authdict ip h = Some (Inl (LoginError 400 [] MISSING_PARAM), h))
   \<and> (checkers h stagetype = Some chk \<and> py_getitem authdict ''session'' = Inr (PStr S)
        \<and> S \<noteq> [] \<and> sessions h S = Some d \<and> chk authdict ip = Inr result
      \<longrightarrow> (\<exists>h'. add_oob_auth stagetype authdict ip h = Some (Inr (truthy result), h')
             \<and> (if truthy result
                 then sessions h' S
                        = Some (d\<lparr>creds := Some (AList.update stagetype result (creds_of d)),
                                  last_used := Some (clock_msec h)\<rparr>)
                 else sessions h' S = Some (d\<lparr>creds := Some (creds_of d)\<rparr>)
                      \<and> (\<forall>k. k \<noteq> S \<longrightarrow> sessions h' k = sessions h k))))"
proof (intro conjI impI)
  assume "checkers h stagetype = None \<or> py_contains authdict ''session'' = Inr False"
  then show "add_oob_auth stagetype authdict ip h = Some (Inl (LoginError 400 [] MISSING_PARAM), h)"
    by (auto simp: add_oob_auth_def)
next
  assume a: "checkers h stagetype = Some chk \<and> py_getitem authdict ''session'' = Inr (PStr S)
        \<and> S \<noteq> [] \<and> sessions h S = Some d \<and> chk authdict ip = Inr result"
  then have sid: "py_getitem authdict ''session'' = Inr (PStr S)" and tbl: "sessions h S = Some d"
    and ne: "S \<noteq> []" by simp_all
  obtain sess h2 where e: "ensure_creds (S, d) h = (sess, h2)" by (metis surj_pair)
  note r = ensure_creds_result [OF e tbl]
  have sess: "sess = d\<lparr>creds := Some (creds_of d)\<rparr>"
    using e by (auto simp: ensure_creds_def creds_of_def Let_def split: if_splits)
  have run: "add_oob_auth stagetype authdict ip h =
               (if truthy result
                then Some (Inr True, save_session
                    (S, sess\<lparr>creds := Some (AList.update stagetype result (creds_of sess))\<rparr>) h2)
                else Some (Inr False, h2))"
    using a r by (simp add: add_oob_auth_def py_getitem_contains [OF sid]
                     get_session_info_existing [OF tbl ne] e)
  show "\<exists>h'. add_oob_auth stagetype authdict ip h = Some (Inr (truthy result), h')
             \<and> (if truthy result
                 then sessions h' S
                        = Some (d\<lparr>creds := Some (AList.update stagetype result (creds_of d)),
                                  last_used := Some (clock_msec h)\<rparr>)
                 else sessions h' S = Some (d\<lparr>creds := Some (creds_of d)\<rparr>)
                      \<and> (\<forall>k. k \<noteq> S \<longrightarrow> sessions h' k = sessions h k))"
  proof (cases "truthy result")
    case True
    with run r sess show ?thesis
      by (simp add: save_session_self creds_of_def)
  next
    case False
    with run r sess show ?thesis by simp
  qed
qed

theorem add_oob_auth_outcomes_witness:
  "add_oob_auth ''m.login.bogus'' (sample_auth []) ''ip'' sample_handler
     = Some (Inl (LoginError 400 [] MISSING_PARAM), sample_handler)
   \<and> fst (the (add_oob_auth ''m.login.dummy'' (sample_auth []) ''ip''
                (sample_handler\<lparr>clock_msec := 27200001\<rparr>))) = Inr True
   \<and> sessions (snd (the (add_oob_auth ''m.login.dummy'' (sample_auth []) ''ip''
                (sample_handler\<lparr>clock_msec := 27200001\<rparr>)))) ''live''
       = Some (new_session\<lparr>creds := Some [(''m.login.dummy'', PBool True)],
                            last_used := Some 27200001\<rparr>)
   \<and> fst (the (add_oob_auth ''m.login.pending'' (sample_auth []) ''ip'' sample_handler)) = Inr False
   \<and> sessions (snd (the (add_oob_auth ''m.login.pending'' (sample_auth []) ''ip'' sample_handler)))
         ''live''
       = sessions sample_handler ''live''"
proof -
  define h where "h = sample_handler\<lparr>clock_msec := 27200001\<rparr>"
  define d where "d = new_session\<lparr>creds := Some [(''m.login.dummy'', PBool True)],
                                  last_used := Some 27200000\<rparr>"
  have a: "checkers sample_handler ''m.login.bogus'' = None" by (simp add: sample_handler_def)
  have b: "checkers h ''m.login.dummy'' = Some (\<lambda>authdict clientip. Inr (PBool True))
           \<and> py_getitem (sample_auth []) ''session'' = Inr (PStr ''live'')
           \<and> ''live'' \<noteq> [] \<and> sessions h ''live'' = Some d
           \<and> (\<lambda>authdict clientip. Inr (PBool True)) (sample_auth []) ''ip'' = Inr (PBool True)"
    by (simp add: h_def d_def sample_handler_def sample_auth_def)
  from add_oob_auth_outcomes [of sample_handler "''m.login.bogus''" "sample_auth []" "''ip''"] a
  have 1: "add_oob_auth ''m.login.bogus'' (sample_auth []) ''ip'' sample_handler
     = Some (Inl (LoginError 400 [] MISSING_PARAM), sample_handler)"
    by blast
  from add_oob_auth_outcomes [of h "''m.login.dummy''" "sample_auth []" "''ip''"
        "\<lambda>authdict clientip. Inr (PBool True)" "''live''" d "PBool True"] b
  obtain h' where 2: "add_oob_auth ''m.login.dummy'' (sample_auth []) ''ip'' h = Some (Inr True, h')"
    "sessions h' ''live'' = Some (d\<lparr>creds := Some (AList.update ''m.login.dummy'' (PBool True) (creds_of d)),
                                  last_used := Some (clock_msec h)\<rparr>)"
    by auto
  have c: "checkers sample_handler ''m.login.pending'' = Some (\<lambda>authdict clientip. Inr PNone)
           \<and> py_getitem (sample_auth []) ''session'' = Inr (PStr ''live'')
           \<and> ''live'' \<noteq> [] \<and> sessions sample_handler ''live'' = Some d
           \<and> (\<lambda>authdict clientip. Inr PNone) (sample_auth []) ''ip'' = Inr PNone"
    by (simp add: d_def sample_handler_def sample_auth_def)
  from add_oob_auth_outcomes [of sample_handler "''m.login.pending''" "sample_auth []" "''ip''"
        "\<lambda>authdict clientip. Inr PNone" "''live''" d PNone] c
  obtain h'' where 3: "add_oob_auth ''m.login.pending'' (sample_auth []) ''ip'' sample_handler
                         = Some (Inr False, h'')"
    "sessions h'' ''live'' = Some (d\<lparr>creds := Some (creds_of d)\<rparr>)"
    by auto
  from 1 2 3 c show ?thesis
    unfolding h_def [symmetric]
    by (simp add: d_def creds_of_def new_session_def h_def)
qed

subsection \<open>Sessions that were never saved\<close>

text \<open>
  C10. A session that \<^verbatim>\<open>_get_session_info\<close> creates is put in the table without a
  \<^verbatim>\<open>last_used\<close> entry. While it has none the sweep reads its age as 0: once the clock
  reads more than 48 hours (in milliseconds since the epoch), saving any other session
  removes it, however recently it was created.
\<close>

theorem never_saved_session_pruned:
  assumes created: "get_session_info sid h0 = Some (Inr (A, a), h1)" "sessions h0 A = None"
      and unsaved: "sessions h A = Some a'" "last_used a' = None"
      and other: "B \<noteq> A" and clock: "48 * 60 * 60 * 1000 < clock_msec h"
  shows "sessions h1 A = Some a \<and> last_used a = None
         \<and> sessions (save_session (B, b) h) A = None"
proof -
  from get_session_info_result [OF created(1)] created(2)
  have "sessions h1 A = Some a" "a = new_session" by auto
  moreover from unsaved other clock have "sessions (save_session (B, b) h) A = None"
    by (simp add: save_session_other SESSION_EXPIRE_MS_def)
  ultimately show ?thesis by (simp add: new_session_def)
qed

theorem never_saved_session_pruned_witness:
  "get_session_info PNone sample_handler
     = Some (Inr (''fresh'', new_session),
             sample_handler\<lparr>sessions := (sessions sample_handler)(''fresh'' \<mapsto> new_session),
                             random_strings := []\<rparr>)
   \<and> sessions sample_handler ''fresh'' = None
   \<and> last_used new_session = None
   \<and> 48 * 60 * 60 * 1000 < clock_msec sample_handler
   \<and> sessions (save_session (''live'', new_session)
                 (sample_handler\<lparr>sessions := (sessions sample_handler)(''fresh'' \<mapsto> new_session),
                                 random_strings := []\<rparr>)) ''fresh'' = None"
proof -
  define h1 where
    "h1 = sample_handler\<lparr>sessions := (sessions sample_handler)(''fresh'' \<mapsto> new_session),
                          random_strings := []\<rparr>"
  have c1: "get_session_info PNone sample_handler = Some (Inr (''fresh'', new_session), h1)"
    unfolding h1_def by (simp add: get_session_info_def create_session_def sample_handler_def)
  have c2: "sessions sample_handler ''fresh'' = None" by (simp add: sample_handler_def)
  have u1: "sessions h1 ''fresh'' = Some new_session" by (simp add: h1_def)
  have u2: "last_used new_session = None" by (simp add: new_session_def)
  have o: "''live'' \<noteq> ''fresh''" by simp
  have k: "48 * 60 * 60 * 1000 < clock_msec h1" by (simp add: h1_def sample_handler_def)
  from never_saved_session_pruned [OF c1 c2 u1 u2 o k, of new_session] c1 c2 u2 k
  show ?thesis unfolding h1_def by simp
qed

end
